theory Spec2Isabelle
  imports Complex_Main "HOL-Library.Word" "HOL-Library.Sublist"
begin

section \<open>Values of the host and of C++\<close>

text \<open>
  The binding (\<^verbatim>\<open>src/binding.cc\<close>) is the only source file: a Node-API class
  \<^verbatim>\<open>AprilTagDetector\<close> with a constructor and one method \<^verbatim>\<open>Detect\<close>.
  Node-API, OpenCV and the AprilTags engine are libraries the binding calls; only the
  part of their behaviour that the binding relies on appears here.
\<close>

type_synonym byte = "8 word"

text \<open>C++ \<^verbatim>\<open>int\<close>: 32 bits, two's complement, read with \<^term>\<open>sint\<close>.\<close>
type_synonym int32 = "32 word"

text \<open>C++ \<^verbatim>\<open>size_t\<close> on the 64-bit platforms Node.js addons are built for.\<close>
type_synonym size_t = "64 word"

text \<open>
  A C++ \<^verbatim>\<open>double\<close> (and a JavaScript number) by its value: every finite double is a
  rational; the three other values are kept apart.  No rounding is modelled: the binding
  performs no floating-point arithmetic, it only converts numbers to \<^verbatim>\<open>int\<close>.
\<close>
datatype double = Finite rat | NaN | PosInfinity | NegInfinity

datatype js_value =
    JSUndefined
  | JSNull
  | JSBoolean bool
  | JSNumber double
  | JSString string
  | JSBuffer nat
  | JSArray "js_value list"
  | JSObject "(string \<times> js_value) list"

text \<open>
  \<^term>\<open>JSBuffer a\<close> is a Node.js Buffer whose bytes live in block \<open>a\<close> of the store (below);
  \<^term>\<open>JSObject ps\<close> lists the properties in insertion order.
\<close>

datatype error =
    JSTypeError string
  | JSError string
  | NullDereference

text \<open>
  \<^term>\<open>JSTypeError\<close> is \<^verbatim>\<open>Napi::TypeError::New(env, msg).ThrowAsJavaScriptException()\<close>;
  \<^term>\<open>JSError\<close> is an error raised by Node-API itself; \<^term>\<open>NullDereference\<close> is a call
  through a null \<^verbatim>\<open>detector\<close> pointer.
\<close>

subsection \<open>Node-API accessors\<close>

text \<open>\<^verbatim>\<open>info[i]\<close>: \<^verbatim>\<open>CallbackInfo::operator[]\<close> gives \<^verbatim>\<open>undefined\<close> beyond \<^verbatim>\<open>info.Length()\<close>.\<close>
definition arg :: "js_value list \<Rightarrow> nat \<Rightarrow> js_value" where
  "arg info i = (if i < length info then info ! i else JSUndefined)"

fun IsString :: "js_value \<Rightarrow> bool" where
  "IsString (JSString s) = True"
| "IsString v = False"

fun IsNumber :: "js_value \<Rightarrow> bool" where
  "IsNumber (JSNumber x) = True"
| "IsNumber v = False"

fun IsBuffer :: "js_value \<Rightarrow> bool" where
  "IsBuffer (JSBuffer a) = True"
| "IsBuffer v = False"

text \<open>\<^verbatim>\<open>napi_typeof\<close> reports \<^verbatim>\<open>napi_object\<close> for plain objects, arrays and buffers.\<close>
fun IsObject :: "js_value \<Rightarrow> bool" where
  "IsObject (JSObject ps) = True"
| "IsObject (JSArray xs) = True"
| "IsObject (JSBuffer a) = True"
| "IsObject v = False"

fun Utf8Value :: "js_value \<Rightarrow> string" where
  "Utf8Value (JSString s) = s"
| "Utf8Value v = []"

text \<open>\<^verbatim>\<open>Object::Has\<close> and \<^verbatim>\<open>Object::Get\<close>; arrays and buffers carry no named property here.\<close>
fun Has :: "js_value \<Rightarrow> string \<Rightarrow> bool" where
  "Has (JSObject ps) k = (k \<in> set (map fst ps))"
| "Has v k = False"

fun Get :: "js_value \<Rightarrow> string \<Rightarrow> js_value" where
  "Get (JSObject ps) k = (case map_of ps k of Some v \<Rightarrow> v | None \<Rightarrow> JSUndefined)"
| "Get v k = JSUndefined"

text \<open>
  \<^verbatim>\<open>Number::Int32Value\<close> (\<^verbatim>\<open>napi_get_value_int32\<close>, ECMAScript ToInt32): a non-finite number
  gives 0; a finite one is truncated towards zero and its low 32 bits are kept.
\<close>
definition trunc_toward_zero :: "rat \<Rightarrow> int" where
  "trunc_toward_zero q = (if q < 0 then - \<lfloor>- q\<rfloor> else \<lfloor>q\<rfloor>)"

fun Int32Value :: "double \<Rightarrow> int32" where
  "Int32Value (Finite q) = word_of_int (trunc_toward_zero q)"
| "Int32Value NaN = 0"
| "Int32Value PosInfinity = 0"
| "Int32Value NegInfinity = 0"

text \<open>
  \<^verbatim>\<open>v.As<Napi::Number>().Int32Value()\<close>: the cast is unchecked, and
  \<^verbatim>\<open>napi_get_value_int32\<close> fails with \<^verbatim>\<open>napi_number_expected\<close> on a value that is not a
  number; the wrapper raises that failure as an error, which ends the calling function.
\<close>
fun As_Number_Int32Value :: "js_value \<Rightarrow> error + int32" where
  "As_Number_Int32Value (JSNumber x) = Inr (Int32Value x)"
| "As_Number_Int32Value v = Inl (JSError ''A number was expected'')"

text \<open>\<^verbatim>\<open>Napi::Number::New(env, double(i))\<close> for a C++ \<^verbatim>\<open>int\<close>.\<close>
definition Number_of_int32 :: "int32 \<Rightarrow> js_value" where
  "Number_of_int32 i = JSNumber (Finite (of_int (sint i)))"

section \<open>The engine's configuration and the constructor\<close>

text \<open>The preprocessor switches that compile the optional families in.\<close>
record build_flags =
  USE_TAG_16H5 :: bool
  USE_TAG_25H7 :: bool
  USE_TAG_25H9 :: bool
  USE_TAG_36H9 :: bool

text \<open>The code tables of the AprilTags library, by name (their contents are the library's).\<close>
datatype TagCodes = tagCodes36h11 | tagCodes36h9 | tagCodes25h9 | tagCodes25h7 | tagCodes16h5

record TagFamily =
  codes :: TagCodes
  blackBorder :: int32

record TagDetector =
  thisTagFamily :: TagFamily

text \<open>The C++ object: \<^verbatim>\<open>AprilTags::TagDetector* detector\<close>, \<^term>\<open>None\<close> for \<^verbatim>\<open>nullptr\<close>.\<close>
record AprilTagDetector =
  detector :: "TagDetector option"

text \<open>
  What a constructor call leaves behind: the object, and the JavaScript exception that is
  pending when it returns (then \<^verbatim>\<open>new AprilTagDetector(...)\<close> throws and the caller gets
  no object).
\<close>
record construction =
  object :: AprilTagDetector
  thrown :: "error option"

text \<open>
  Lines 68-75 of the constructor: the local \<^verbatim>\<open>int blackBorder = 1\<close> and its optional
  replacement by \<^verbatim>\<open>options.Get("blackBorder").As<Napi::Number>().Int32Value()\<close>.
\<close>
definition read_blackBorder :: "js_value list \<Rightarrow> error + int32" where
  "read_blackBorder info =
     (if length info \<ge> 2 \<and> IsObject (arg info 1) then
        (let options = arg info 1 in
         if Has options ''blackBorder''
         then As_Number_Int32Value (Get options ''blackBorder'')
         else Inr 1)
      else Inr 1)"

text \<open>
  Lines 77-106: the chain of comparisons that chooses \<^verbatim>\<open>tagCodes\<close>; a branch under
  \<^verbatim>\<open>#ifdef\<close> exists only when its switch is set.  \<^term>\<open>None\<close> is the final \<^verbatim>\<open>else\<close>.
\<close>
definition select_tagCodes :: "build_flags \<Rightarrow> string \<Rightarrow> TagCodes option" where
  "select_tagCodes flags tagFamily =
     (if tagFamily = ''36h11'' then Some tagCodes36h11
      else if USE_TAG_36H9 flags \<and> tagFamily = ''36h9'' then Some tagCodes36h9
      else if USE_TAG_25H9 flags \<and> tagFamily = ''25h9'' then Some tagCodes25h9
      else if USE_TAG_25H7 flags \<and> tagFamily = ''25h7'' then Some tagCodes25h7
      else if USE_TAG_16H5 flags \<and> tagFamily = ''16h5'' then Some tagCodes16h5
      else None)"

text \<open>
  \<^verbatim>\<open>AprilTagDetector::AprilTagDetector(const Napi::CallbackInfo& info)\<close>, lines 51-112.
  \<open>flags\<close> are the build's switches; \<open>new_TagDetector\<close> is the library's
  \<^verbatim>\<open>TagDetector(const TagCodes&)\<close> constructor.  The member initialiser sets
  \<^verbatim>\<open>detector(nullptr)\<close>, and every early \<^verbatim>\<open>return\<close> leaves it so.  Line 111 overwrites
  the border width of the family the library has just built.
\<close>
definition AprilTagDetector_new ::
  "build_flags \<Rightarrow> (TagCodes \<Rightarrow> TagDetector) \<Rightarrow> js_value list \<Rightarrow> construction" where
  "AprilTagDetector_new flags new_TagDetector info =
    (let this = \<lparr>detector = None\<rparr> in
     if length info < 1 then
       \<lparr>object = this, thrown = Some (JSTypeError ''Expected tag family string'')\<rparr>
     else if \<not> IsString (arg info 0) then
       \<lparr>object = this, thrown = Some (JSTypeError ''Tag family must be a string'')\<rparr>
     else
       let tagFamily = Utf8Value (arg info 0) in
       case read_blackBorder info of
         Inl e \<Rightarrow> \<lparr>object = this, thrown = Some e\<rparr>
       | Inr blackBorder' \<Rightarrow>
          (case select_tagCodes flags tagFamily of
             None \<Rightarrow>
               \<lparr>object = this,
                thrown = Some (JSTypeError ''Unknown tag family. Only 36h11 is currently enabled'')\<rparr>
           | Some tagCodes \<Rightarrow>
               (let d = new_TagDetector tagCodes;
                    d' = d\<lparr>thisTagFamily := (thisTagFamily d)\<lparr>blackBorder := blackBorder'\<rparr>\<rparr>
                in \<lparr>object = this\<lparr>detector := Some d'\<rparr>, thrown = None\<rparr>)))"

text \<open>The family names this build accepts.\<close>
definition compiled_in :: "build_flags \<Rightarrow> string \<Rightarrow> bool" where
  "compiled_in flags name \<longleftrightarrow>
     name = ''36h11'' \<or> (USE_TAG_36H9 flags \<and> name = ''36h9'') \<or> (USE_TAG_25H9 flags \<and> name = ''25h9'')
     \<or> (USE_TAG_25H7 flags \<and> name = ''25h7'') \<or> (USE_TAG_16H5 flags \<and> name = ''16h5'')"

section \<open>Memory and OpenCV matrices\<close>

text \<open>
  The buffer's bytes and the pixel data of matrices live in a store of blocks; an address
  is an index, a released block is \<^term>\<open>None\<close>.  \<^verbatim>\<open>cv::Mat\<close> headers may share a block
  with a Buffer, which is what \<^verbatim>\<open>cv::Mat(rows, cols, type, buffer.Data())\<close> does.
  The OpenCV calls are taken to return for every header; what OpenCV does with a header
  whose dimensions are negative or do not fit the block is OpenCV's, not the binding's.
\<close>
type_synonym store = "byte list option list"

definition block :: "store \<Rightarrow> nat \<Rightarrow> byte list" where
  "block st a = (if a < length st then (case st ! a of Some bs \<Rightarrow> bs | None \<Rightarrow> []) else [])"

definition allocate :: "byte list \<Rightarrow> store \<Rightarrow> nat \<times> store" where
  "allocate bs st = (length st, st @ [Some bs])"

definition release :: "nat \<Rightarrow> store \<Rightarrow> store" where
  "release a st = (if a < length st then st[a := None] else st)"

text \<open>\<^verbatim>\<open>Napi::Buffer<uint8_t>\<close>: \<^verbatim>\<open>Data()\<close> is the block's address, \<^verbatim>\<open>Length()\<close> its size.\<close>
fun Buffer_Data :: "js_value \<Rightarrow> nat" where
  "Buffer_Data (JSBuffer a) = a"
| "Buffer_Data v = 0"

definition Buffer_Length :: "store \<Rightarrow> nat \<Rightarrow> size_t" where
  "Buffer_Length st a = of_nat (length (block st a))"

datatype mat_type = CV_8UC1 | CV_8UC3 | CV_8UC4

datatype ColorConversionCodes = COLOR_RGB2GRAY | COLOR_RGBA2GRAY

record Mat =
  rows :: int32
  cols :: int32
  mtype :: mat_type
  data :: "nat option"

text \<open>\<^verbatim>\<open>cv::Mat(rows, cols, type, void* data)\<close>: a header over the caller's memory, nothing is copied.\<close>
definition Mat_header :: "int32 \<Rightarrow> int32 \<Rightarrow> mat_type \<Rightarrow> nat \<Rightarrow> Mat" where
  "Mat_header r c t a = \<lparr>rows = r, cols = c, mtype = t, data = Some a\<rparr>"

definition pixels :: "store \<Rightarrow> Mat \<Rightarrow> byte list" where
  "pixels st m = (case data m of None \<Rightarrow> [] | Some a \<Rightarrow> block st a)"

text \<open>
  \<^verbatim>\<open>cv::Mat::clone()\<close>: a new block holding a copy of the pixel data.  The binding clones
  a header whose \<^verbatim>\<open>rows * cols\<close> bytes are the whole buffer, so the copy is the block.
\<close>
definition Mat_clone :: "Mat \<Rightarrow> store \<Rightarrow> Mat \<times> store" where
  "Mat_clone m st = (let (a, st') = allocate (pixels st m) st in (m\<lparr>data := Some a\<rparr>, st'))"

text \<open>
  \<^verbatim>\<open>cv::cvtColor(src, dst, code)\<close> with an empty \<open>dst\<close>, as the binding calls it: \<open>dst\<close>
  becomes a new single-channel matrix of the size of \<open>src\<close>; \<open>src\<close> is only read.
  The arithmetic of the conversion is OpenCV's, the parameter \<open>cvtColor_pixels\<close>.
\<close>
definition cvtColor ::
  "(ColorConversionCodes \<Rightarrow> Mat \<Rightarrow> byte list \<Rightarrow> byte list)
     \<Rightarrow> Mat \<Rightarrow> ColorConversionCodes \<Rightarrow> store \<Rightarrow> Mat \<times> store" where
  "cvtColor cvtColor_pixels src code st =
     (let (a, st') = allocate (cvtColor_pixels code src (pixels st src)) st
      in (\<lparr>rows = rows src, cols = cols src, mtype = CV_8UC1, data = Some a\<rparr>, st'))"

text \<open>The destructor of a matrix that owns its data.\<close>
definition Mat_release :: "Mat \<Rightarrow> store \<Rightarrow> store" where
  "Mat_release m st = (case data m of None \<Rightarrow> st | Some a \<Rightarrow> release a st)"

text \<open>\<^verbatim>\<open>(size_t)(int)\<close>: sign extension to 64 bits.\<close>
definition size_t_of_int :: "int32 \<Rightarrow> size_t" where
  "size_t_of_int i = scast i"

section \<open>Detections and their JavaScript form\<close>

text \<open>
  \<^verbatim>\<open>AprilTags::TagDetection\<close>, the fields the binding reads: \<^verbatim>\<open>id\<close> (here \<open>id_tag\<close>),
  \<^verbatim>\<open>hammingDistance\<close>, \<^verbatim>\<open>good\<close>, \<^verbatim>\<open>cxy\<close>, the array \<^verbatim>\<open>p[4]\<close> and the matrix
  \<^verbatim>\<open>homography\<close>, read as \<^verbatim>\<open>homography(row, col)\<close>.
\<close>
record TagDetection =
  good :: bool
  id_tag :: int32
  hammingDistance :: int32
  cxy :: "double \<times> double"
  p :: "nat \<Rightarrow> double \<times> double"
  homography :: "nat \<Rightarrow> nat \<Rightarrow> double"

text \<open>\<^verbatim>\<open>Napi::Array::New(env, n)\<close> and \<^verbatim>\<open>array[uint32_t(i)] = v\<close> (JavaScript extends the array).\<close>
definition Array_New :: "nat \<Rightarrow> js_value list" where
  "Array_New n = replicate n JSUndefined"

definition Array_set :: "js_value list \<Rightarrow> nat \<Rightarrow> js_value \<Rightarrow> js_value list" where
  "Array_set xs i v =
     (if i < length xs then xs[i := v] else xs @ replicate (i - length xs) JSUndefined @ [v])"

text \<open>\<^verbatim>\<open>obj.Set(key, v)\<close>: an existing property keeps its place, a new one goes last.\<close>
fun Object_Set :: "(string \<times> js_value) list \<Rightarrow> string \<Rightarrow> js_value \<Rightarrow> (string \<times> js_value) list" where
  "Object_Set [] k v = [(k, v)]"
| "Object_Set (kv # ps) k v = (if fst kv = k then (k, v) # ps else kv # Object_Set ps k v)"

text \<open>The loop of lines 181-186.\<close>
function corners_loop :: "TagDetection \<Rightarrow> nat \<Rightarrow> js_value list \<Rightarrow> js_value list" where
  "corners_loop detection j corners =
     (if j < 4 then
        (let corner = Array_New 2;
             corner = Array_set corner 0 (JSNumber (fst (p detection j)));
             corner = Array_set corner 1 (JSNumber (snd (p detection j)))
         in corners_loop detection (Suc j) (Array_set corners j (JSArray corner)))
      else corners)"
  by pat_completeness auto
termination
  by (relation "measure (\<lambda>(detection, j, corners). 4 - j)") auto

declare corners_loop.simps [simp del]

text \<open>The loops of lines 191-195: columns inside rows.\<close>
function homography_cols :: "TagDetection \<Rightarrow> nat \<Rightarrow> nat \<Rightarrow> js_value list \<Rightarrow> js_value list" where
  "homography_cols detection row col h =
     (if col < 3 then
        homography_cols detection row (Suc col)
          (Array_set h (row * 3 + col) (JSNumber (homography detection row col)))
      else h)"
  by pat_completeness auto
termination
  by (relation "measure (\<lambda>(detection, row, col, h). 3 - col)") auto

declare homography_cols.simps [simp del]

function homography_rows :: "TagDetection \<Rightarrow> nat \<Rightarrow> js_value list \<Rightarrow> js_value list" where
  "homography_rows detection row h =
     (if row < 3 then homography_rows detection (Suc row) (homography_cols detection row 0 h)
      else h)"
  by pat_completeness auto
termination
  by (relation "measure (\<lambda>(detection, row, h). 3 - row)") auto

declare homography_rows.simps [simp del]

text \<open>The body of the loop over the detections, lines 166-196: the object built for one detection.\<close>
definition detection_object :: "TagDetection \<Rightarrow> js_value" where
  "detection_object detection =
     (let obj = [];
          obj = Object_Set obj ''id'' (Number_of_int32 (id_tag detection));
          obj = Object_Set obj ''hammingDistance'' (Number_of_int32 (hammingDistance detection));
          obj = Object_Set obj ''good'' (JSBoolean (good detection));
          center = Array_New 2;
          center = Array_set center 0 (JSNumber (fst (cxy detection)));
          center = Array_set center 1 (JSNumber (snd (cxy detection)));
          obj = Object_Set obj ''center'' (JSArray center);
          corners = corners_loop detection 0 (Array_New 4);
          obj = Object_Set obj ''corners'' (JSArray corners);
          h = homography_rows detection 0 (Array_New 9);
          obj = Object_Set obj ''homography'' (JSArray h)
      in JSObject obj)"

text \<open>The loop of lines 165-199.\<close>
function detections_loop :: "TagDetection list \<Rightarrow> nat \<Rightarrow> js_value list \<Rightarrow> js_value list" where
  "detections_loop detections i result =
     (if i < length detections then
        detections_loop detections (Suc i)
          (Array_set result i (detection_object (detections ! i)))
      else result)"
  by pat_completeness auto
termination
  by (relation "measure (\<lambda>(detections, i, result). length detections - i)") auto

declare detections_loop.simps [simp del]

section \<open>Detect\<close>

text \<open>The object and the memory it runs in.\<close>
record world =
  service :: AprilTagDetector
  memory :: store

text \<open>
  Lines 138-157 of \<^verbatim>\<open>Detect\<close>: the matrix \<^verbatim>\<open>image\<close> (here \<open>image'\<close>) built from the buffer, by the
  buffer's length.  The products are C++ \<^verbatim>\<open>int\<close> products (32 bits), converted to
  \<^verbatim>\<open>size_t\<close> afterwards.
\<close>
definition make_image ::
  "(ColorConversionCodes \<Rightarrow> Mat \<Rightarrow> byte list \<Rightarrow> byte list)
     \<Rightarrow> nat \<Rightarrow> int32 \<Rightarrow> int32 \<Rightarrow> store \<Rightarrow> error + Mat \<times> store" where
  "make_image cvtColor_pixels buffer width height st =
     (if Buffer_Length st buffer = size_t_of_int (width * height) then
        (let temp = Mat_header height width CV_8UC1 buffer
         in Inr (Mat_clone temp st))
      else if Buffer_Length st buffer = size_t_of_int (width * height * 3) then
        (let colorImage = Mat_header height width CV_8UC3 buffer
         in Inr (cvtColor cvtColor_pixels colorImage COLOR_RGB2GRAY st))
      else if Buffer_Length st buffer = size_t_of_int (width * height * 4) then
        (let colorImage = Mat_header height width CV_8UC4 buffer
         in Inr (cvtColor cvtColor_pixels colorImage COLOR_RGBA2GRAY st))
      else Inl (JSTypeError ''Invalid buffer size for given dimensions''))"

text \<open>
  \<^verbatim>\<open>Napi::Value AprilTagDetector::Detect(const Napi::CallbackInfo& info)\<close>, lines 114-202.
  \<open>extractTags\<close> is the engine's \<^verbatim>\<open>TagDetector::extractTags(const cv::Mat&)\<close>: it sees the
  detector, the image header and the image's pixels, and returns the detections; the
  detector's only state, \<^verbatim>\<open>thisTagFamily\<close>, is a \<^verbatim>\<open>const\<close> member (line 111 needs a
  \<^verbatim>\<open>const_cast\<close> to write it).  \<^verbatim>\<open>image\<close> is destroyed when the method returns.
\<close>
definition Detect ::
  "(ColorConversionCodes \<Rightarrow> Mat \<Rightarrow> byte list \<Rightarrow> byte list)
     \<Rightarrow> (TagDetector \<Rightarrow> Mat \<Rightarrow> byte list \<Rightarrow> TagDetection list)
     \<Rightarrow> js_value list \<Rightarrow> world \<Rightarrow> (error + js_value) \<times> world" where
  "Detect cvtColor_pixels extractTags info w =
     (if length info < 1 then (Inl (JSTypeError ''Expected image buffer''), w)
      else if \<not> IsBuffer (arg info 0) then (Inl (JSTypeError ''Image must be a Buffer''), w)
      else
        let buffer = Buffer_Data (arg info 0) in
        if length info < 3 \<or> \<not> IsNumber (arg info 1) \<or> \<not> IsNumber (arg info 2) then
          (Inl (JSTypeError ''Expected width and height as numbers''), w)
        else
          case As_Number_Int32Value (arg info 1) of
            Inl e \<Rightarrow> (Inl e, w)
          | Inr width \<Rightarrow>
         (case As_Number_Int32Value (arg info 2) of
            Inl e \<Rightarrow> (Inl e, w)
          | Inr height \<Rightarrow>
         (case make_image cvtColor_pixels buffer width height (memory w) of
            Inl e \<Rightarrow> (Inl e, w)
          | Inr (image', st) \<Rightarrow>
         (case detector (service w) of
            None \<Rightarrow> (Inl NullDereference, w\<lparr>memory := st\<rparr>)
          | Some d \<Rightarrow>
              (let detections = extractTags d image' (pixels st image');
                   result = detections_loop detections 0 (Array_New (length detections))
               in (Inr (JSArray result), w\<lparr>memory := Mat_release image' st\<rparr>))))))"

section \<open>Calls in sequence, and sample collaborators\<close>

text \<open>The host calling \<^verbatim>\<open>detect\<close> several times on one object: each call starts where the last ended.\<close>
fun Detect_calls ::
  "(ColorConversionCodes \<Rightarrow> Mat \<Rightarrow> byte list \<Rightarrow> byte list)
     \<Rightarrow> (TagDetector \<Rightarrow> Mat \<Rightarrow> byte list \<Rightarrow> TagDetection list)
     \<Rightarrow> js_value list list \<Rightarrow> world \<Rightarrow> (error + js_value) list \<times> world" where
  "Detect_calls cvtColor_pixels extractTags [] w = ([], w)"
| "Detect_calls cvtColor_pixels extractTags (info # calls) w =
     (let (r, w') = Detect cvtColor_pixels extractTags info w;
          (rs, w'') = Detect_calls cvtColor_pixels extractTags calls w'
      in (r # rs, w''))"

text \<open>The border width a construction has installed on the engine's family, if there is an engine.\<close>
definition installed_border :: "construction \<Rightarrow> int32 option" where
  "installed_border c = map_option (\<lambda>d. blackBorder (thisTagFamily d)) (detector (object c))"

text \<open>
  Concrete collaborators for evaluating the model: the build without optional families
  (the one the error message of line 103 describes), an engine constructor whose family
  starts with border width 2, a colour conversion that yields no pixels, an engine that
  finds nothing and one that finds a single tag, and a world whose only block, at address 0,
  holds the caller's buffer.
\<close>
definition default_build :: build_flags where
  "default_build =
     \<lparr>USE_TAG_16H5 = False, USE_TAG_25H7 = False, USE_TAG_25H9 = False, USE_TAG_36H9 = False\<rparr>"

definition sample_TagDetector :: "TagCodes \<Rightarrow> TagDetector" where
  "sample_TagDetector tc = \<lparr>thisTagFamily = \<lparr>codes = tc, blackBorder = 2\<rparr>\<rparr>"

definition sample_cvtColor_pixels :: "ColorConversionCodes \<Rightarrow> Mat \<Rightarrow> byte list \<Rightarrow> byte list" where
  "sample_cvtColor_pixels code src bs = []"

definition no_tags :: "TagDetector \<Rightarrow> Mat \<Rightarrow> byte list \<Rightarrow> TagDetection list" where
  "no_tags d m bs = []"

definition sample_detection :: TagDetection where
  "sample_detection =
     \<lparr>good = True, id_tag = 7, hammingDistance = 0, cxy = (Finite 5, Finite 6),
      p = (\<lambda>j. (Finite (of_nat j), Finite 0)),
      homography = (\<lambda>row col. Finite (of_nat (10 * row + col)))\<rparr>"

definition one_tag :: "TagDetector \<Rightarrow> Mat \<Rightarrow> byte list \<Rightarrow> TagDetection list" where
  "one_tag d m bs = [sample_detection]"

text \<open>An engine that reports tag 3, then tag 1, then tag 3 again.\<close>
definition tag_with_id :: "int32 \<Rightarrow> TagDetection" where
  "tag_with_id n = sample_detection\<lparr>id_tag := n\<rparr>"

definition three_tags :: "TagDetector \<Rightarrow> Mat \<Rightarrow> byte list \<Rightarrow> TagDetection list" where
  "three_tags d m bs = [tag_with_id 3, tag_with_id 1, tag_with_id 3]"

definition world_with :: "byte list \<Rightarrow> world" where
  "world_with bs =
     \<lparr>service = \<lparr>detector = Some (sample_TagDetector tagCodes36h11)\<rparr>, memory = [Some bs]\<rparr>"

section \<open>Arithmetic of the size comparison\<close>

lemma trunc_toward_zero_of_int: "trunc_toward_zero (of_int n) = n"
  by (simp add: trunc_toward_zero_def)

lemma trunc_toward_zero_10_9: "trunc_toward_zero (109 / 10) = 10"
  by code_simp


lemma trunc_toward_zero_bounds:
  "(0 \<le> q \<longrightarrow> of_int (trunc_toward_zero q) \<le> q \<and> q < of_int (trunc_toward_zero q) + 1)
   \<and> (q < 0 \<longrightarrow> of_int (trunc_toward_zero q) - 1 < q \<and> q \<le> of_int (trunc_toward_zero q))"
proof (cases "q < 0")
  case True
  have "trunc_toward_zero q = \<lceil>q\<rceil>"
    using True by (simp add: trunc_toward_zero_def ceiling_def)
  then show ?thesis using True by (simp add: ceiling_correct)
next
  case False
  then have "trunc_toward_zero q = \<lfloor>q\<rfloor>" by (simp add: trunc_toward_zero_def)
  then show ?thesis using False floor_correct[of q] by simp
qed

lemma trunc_toward_zero_range:
  assumes "- (2 ^ 31) < q" and "q < 2 ^ 31"
  shows "- (2 ^ 31) \<le> trunc_toward_zero q" and "trunc_toward_zero q < 2 ^ 31"
proof -
  have a: "- (2 ^ 31) \<le> trunc_toward_zero q"
  proof (cases "q < 0")
    case True
    then have "trunc_toward_zero q = \<lceil>q\<rceil>"
      by (simp add: trunc_toward_zero_def ceiling_def)
    moreover have "- (2 ^ 31) \<le> \<lceil>q\<rceil>"
      using assms(1) by (simp add: le_ceiling_iff)
    ultimately show ?thesis by simp
  next
    case False
    then have "0 \<le> \<lfloor>q\<rfloor>" by simp
    with False show ?thesis by (simp add: trunc_toward_zero_def)
  qed
  have b: "trunc_toward_zero q < 2 ^ 31"
  proof (cases "q < 0")
    case True
    then have "\<lceil>q\<rceil> \<le> 0" by (simp add: ceiling_le_iff)
    moreover have "trunc_toward_zero q = \<lceil>q\<rceil>"
      using True by (simp add: trunc_toward_zero_def ceiling_def)
    ultimately show ?thesis by simp
  next
    case False
    have "\<lfloor>q\<rfloor> < 2 ^ 31" using assms(2) by (simp add: floor_less_iff)
    with False show ?thesis by (simp add: trunc_toward_zero_def)
  qed
  from a b show "- (2 ^ 31) \<le> trunc_toward_zero q" and "trunc_toward_zero q < 2 ^ 31" .
qed

lemma sint_word_of_int_32:
  "- (2 ^ 31) \<le> n \<Longrightarrow> n < 2 ^ 31 \<Longrightarrow> sint (word_of_int n :: int32) = n"
  by (simp add: sint_sbintrunc' signed_take_bit_int_eq_self)

lemma Int32Value_of_sint: "Int32Value (Finite (of_int (sint i))) = i"
proof -
  have "Int32Value (Finite (of_int (sint i))) = word_of_int (sint i)"
    by (simp only: Int32Value.simps trunc_toward_zero_of_int)
  then show ?thesis by simp
qed

lemma sint_Int32Value_of_int:
  "- (2 ^ 31) \<le> n \<Longrightarrow> n < 2 ^ 31 \<Longrightarrow> sint (Int32Value (Finite (of_int n))) = n"
  by (simp only: Int32Value.simps trunc_toward_zero_of_int sint_word_of_int_32)

lemma sint_bounds_32:
  fixes i :: int32
  shows "- (2 ^ 31) \<le> sint i" and "sint i < 2 ^ 31"
  using sint_ge[of i] sint_lt[of i] by simp_all

lemma sint_mult_32:
  fixes a b :: int32
  assumes "- (2 ^ 31) \<le> sint a * sint b" and "sint a * sint b < 2 ^ 31"
  shows "sint (a * b) = sint a * sint b"
  using assms by (simp add: sint_word_ariths word_size signed_take_bit_int_eq_self)

lemma sint_3_4: "sint (3 :: int32) = 3" "sint (4 :: int32) = 4"
  by simp_all

text \<open>Without overflow the three \<^verbatim>\<open>int\<close> products are the mathematical ones.\<close>
lemma sint_products:
  fixes width height :: int32
  assumes "- (2 ^ 31) \<le> sint width * sint height * 4" and "sint width * sint height * 4 < 2 ^ 31"
  shows "sint (width * height) = sint width * sint height"
    and "sint (width * height * 3) = sint width * sint height * 3"
    and "sint (width * height * 4) = sint width * sint height * 4"
proof -
  define k where "k = sint width * sint height"
  have b: "- (2 ^ 31) \<le> k * 4" "k * 4 < 2 ^ 31"
    using assms by (simp_all only: k_def)
  have "- (2 ^ 31) \<le> k" "k < 2 ^ 31" using b by linarith+
  then have 1: "sint (width * height) = k"
    unfolding k_def by (rule sint_mult_32)
  have "- (2 ^ 31) \<le> k * 3" "k * 3 < 2 ^ 31" using b by linarith+
  then have 3: "sint (width * height * 3) = k * 3"
    using sint_mult_32[of "width * height" 3] by (simp only: 1 sint_3_4)
  have 4: "sint (width * height * 4) = k * 4"
    using b sint_mult_32[of "width * height" 4] by (simp only: 1 sint_3_4)
  show "sint (width * height) = sint width * sint height"
    and "sint (width * height * 3) = sint width * sint height * 3"
    and "sint (width * height * 4) = sint width * sint height * 4"
    using 1 3 4 by (simp_all only: k_def)
qed

lemma uint_size_t_of_int: "uint (size_t_of_int i) = sint i mod 2 ^ 64"
proof -
  have "uint (size_t_of_int i) = uint (word_of_int (sint i) :: size_t)"
    by (simp only: size_t_of_int_def scast_eq)
  also have "\<dots> = sint i mod 2 ^ LENGTH(64)"
    by (rule uint_word_of_int)
  finally show ?thesis by simp
qed

lemma uint_Buffer_Length:
  assumes "int (length (block st a)) < 2 ^ 64"
  shows "uint (Buffer_Length st a) = int (length (block st a))"
proof -
  have "uint (Buffer_Length st a) = uint (word_of_int (int (length (block st a))) :: size_t)"
    by (simp only: Buffer_Length_def word_of_int_nat of_nat_0_le_iff nat_int)
  also have "\<dots> = int (length (block st a)) mod 2 ^ LENGTH(64)"
    by (rule uint_word_of_int)
  also have "\<dots> = int (length (block st a))"
    using assms by simp
  finally show ?thesis .
qed

text \<open>What the comparison \<^verbatim>\<open>buffer.Length() == (size_t)i\<close> means for the numbers involved.\<close>
lemma Buffer_Length_eq_iff:
  assumes "int (length (block st a)) < 2 ^ 64"
  shows "Buffer_Length st a = size_t_of_int i \<longleftrightarrow>
         int (length (block st a)) = (if 0 \<le> sint i then sint i else 2 ^ 64 + sint i)"
proof -
  have "Buffer_Length st a = size_t_of_int i \<longleftrightarrow> uint (Buffer_Length st a) = uint (size_t_of_int i)"
    by (simp only: word_uint_eq_iff)
  also have "\<dots> \<longleftrightarrow> int (length (block st a)) = sint i mod 2 ^ 64"
    by (simp only: uint_Buffer_Length[OF assms] uint_size_t_of_int)
  also have "sint i mod 2 ^ 64 = (if 0 \<le> sint i then sint i else 2 ^ 64 + sint i)"
  proof (cases "0 \<le> sint i")
    case True
    then show ?thesis using sint_bounds_32[of i] by simp
  next
    case False
    have "(sint i + 2 ^ 64) mod 2 ^ 64 = sint i + 2 ^ 64"
      using False sint_bounds_32[of i] by (intro mod_pos_pos_trivial) simp_all
    then show ?thesis using False by simp
  qed
  finally show ?thesis .
qed

lemma Buffer_Length_nonneg:
  assumes "int (length (block st a)) < 2 ^ 64" and "0 \<le> sint i"
  shows "Buffer_Length st a = size_t_of_int i \<longleftrightarrow> int (length (block st a)) = sint i"
  using Buffer_Length_eq_iff[OF assms(1), of i] assms(2) by simp

lemma Buffer_Length_negative:
  assumes "int (length (block st a)) < 2 ^ 64 - 2 ^ 31" and "sint i < 0"
  shows "Buffer_Length st a \<noteq> size_t_of_int i"
proof -
  have "int (length (block st a)) < 2 ^ 64" using assms(1) by simp
  from Buffer_Length_eq_iff[OF this, of i] assms sint_bounds_32[of i]
  show ?thesis by simp
qed


section \<open>The constructor\<close>

lemma select_tagCodes_None: "\<not> compiled_in flags name \<Longrightarrow> select_tagCodes flags name = None"
  by (simp add: compiled_in_def select_tagCodes_def)

lemma select_tagCodes_Some:
  "compiled_in flags name \<Longrightarrow> \<exists>tc. select_tagCodes flags name = Some tc"
  by (auto simp: compiled_in_def select_tagCodes_def)

lemma read_blackBorder_none: "read_blackBorder [fam] = Inr 1"
  by (simp add: read_blackBorder_def)

lemma read_blackBorder_absent:
  "\<not> Has opts ''blackBorder'' \<Longrightarrow> read_blackBorder (fam # opts # extra) = Inr 1"
  by (simp add: read_blackBorder_def arg_def)

lemma read_blackBorder_number:
  "map_of ps ''blackBorder'' = Some (JSNumber x) \<Longrightarrow>
   read_blackBorder (fam # JSObject ps # extra) = Inr (Int32Value x)"
  by (auto simp: read_blackBorder_def arg_def map_of_eq_None_iff[symmetric]
      simp del: map_of_eq_None_iff)

lemma AprilTagDetector_new_ok:
  assumes "select_tagCodes flags name = Some tc"
    and "read_blackBorder (JSString name # rest) = Inr b"
  shows "AprilTagDetector_new flags mk (JSString name # rest) =
          \<lparr>object = \<lparr>detector =
              Some ((mk tc)\<lparr>thisTagFamily := (thisTagFamily (mk tc))\<lparr>blackBorder := b\<rparr>\<rparr>)\<rparr>,
           thrown = None\<rparr>"
  using assms by (simp add: AprilTagDetector_new_def arg_def Let_def)

lemma AprilTagDetector_new_unknown:
  assumes "select_tagCodes flags name = None"
    and "read_blackBorder (JSString name # rest) = Inr b"
  shows "AprilTagDetector_new flags mk (JSString name # rest) =
          \<lparr>object = \<lparr>detector = None\<rparr>,
           thrown = Some (JSTypeError ''Unknown tag family. Only 36h11 is currently enabled'')\<rparr>"
  using assms by (simp add: AprilTagDetector_new_def arg_def Let_def)

lemma AprilTagDetector_new_failed_border:
  assumes "read_blackBorder (JSString name # rest) = Inl e"
  shows "AprilTagDetector_new flags mk (JSString name # rest) =
          \<lparr>object = \<lparr>detector = None\<rparr>, thrown = Some e\<rparr>"
  using assms by (simp add: AprilTagDetector_new_def arg_def Let_def)

lemma installed_border_ok:
  assumes "select_tagCodes flags name = Some tc"
    and "read_blackBorder (JSString name # rest) = Inr b"
  shows "installed_border (AprilTagDetector_new flags mk (JSString name # rest)) = Some b"
  by (simp add: AprilTagDetector_new_ok[OF assms] installed_border_def)

section \<open>The loops that build the result\<close>

lemma Array_set_in_range: "i < length xs \<Longrightarrow> Array_set xs i v = xs[i := v]"
  by (simp add: Array_set_def)

text \<open>The loop over the detections, started anywhere: what it has written stays, the rest follows in order.\<close>
lemma detections_loop_from:
  "i \<le> length detections \<Longrightarrow> length result = length detections \<Longrightarrow>
   detections_loop detections i result = take i result @ map detection_object (drop i detections)"
proof (induction detections i result rule: detections_loop.induct)
  case (1 detections i result)
  show ?case
  proof (cases "i < length detections")
    case True
    let ?r = "Array_set result i (detection_object (detections ! i))"
    have r: "?r = result[i := detection_object (detections ! i)]"
      using True 1(3) by (simp add: Array_set_in_range)
    have "detections_loop detections i result = detections_loop detections (Suc i) ?r"
      using True by (subst detections_loop.simps) simp
    also have "\<dots> = take (Suc i) ?r @ map detection_object (drop (Suc i) detections)"
      using True 1(3) by (intro 1(1)) (simp_all add: r)
    also have "take (Suc i) ?r = take i result @ [detection_object (detections ! i)]"
      using True 1(3) by (simp add: r take_Suc_conv_app_nth)
    also have "(take i result @ [detection_object (detections ! i)])
                 @ map detection_object (drop (Suc i) detections)
               = take i result @ map detection_object (drop i detections)"
      using True by (simp flip: Cons_nth_drop_Suc)
    finally show ?thesis .
  next
    case False
    have "detections_loop detections i result = result"
      using False by (subst detections_loop.simps) simp
    with False 1(2,3) show ?thesis by simp
  qed
qed

lemma detections_loop_map:
  "detections_loop detections 0 (Array_New (length detections)) = map detection_object detections"
  by (simp add: detections_loop_from Array_New_def)

lemma corners_loop_step:
  "j < 4 \<Longrightarrow> corners_loop d j corners =
     corners_loop d (Suc j)
       (Array_set corners j (JSArray [JSNumber (fst (p d j)), JSNumber (snd (p d j))]))"
  by (subst corners_loop.simps) (simp add: Let_def Array_New_def Array_set_def numeral_2_eq_2)

lemma corners_loop_exit: "\<not> j < 4 \<Longrightarrow> corners_loop d j corners = corners"
  by (subst corners_loop.simps) simp

lemma corners_loop_closed:
  "corners_loop d 0 (Array_New 4) =
     [JSArray [JSNumber (fst (p d 0)), JSNumber (snd (p d 0))],
      JSArray [JSNumber (fst (p d 1)), JSNumber (snd (p d 1))],
      JSArray [JSNumber (fst (p d 2)), JSNumber (snd (p d 2))],
      JSArray [JSNumber (fst (p d 3)), JSNumber (snd (p d 3))]]"
  by (simp add: corners_loop_step corners_loop_exit Array_New_def Array_set_def numeral_eq_Suc)

lemma homography_cols_step:
  "col < 3 \<Longrightarrow> homography_cols d row col h =
     homography_cols d row (Suc col) (Array_set h (row * 3 + col) (JSNumber (homography d row col)))"
  by (subst homography_cols.simps) simp

lemma homography_cols_exit: "\<not> col < 3 \<Longrightarrow> homography_cols d row col h = h"
  by (subst homography_cols.simps) simp

lemma homography_rows_step:
  "row < 3 \<Longrightarrow> homography_rows d row h = homography_rows d (Suc row) (homography_cols d row 0 h)"
  by (subst homography_rows.simps) simp

lemma homography_rows_exit: "\<not> row < 3 \<Longrightarrow> homography_rows d row h = h"
  by (subst homography_rows.simps) simp

lemma homography_rows_closed:
  "homography_rows d 0 (Array_New 9) =
     [JSNumber (homography d 0 0), JSNumber (homography d 0 1), JSNumber (homography d 0 2),
      JSNumber (homography d 1 0), JSNumber (homography d 1 1), JSNumber (homography d 1 2),
      JSNumber (homography d 2 0), JSNumber (homography d 2 1), JSNumber (homography d 2 2)]"
  by (simp add: homography_rows_step homography_rows_exit homography_cols_step homography_cols_exit
      Array_New_def Array_set_def numeral_eq_Suc)

lemma detection_object_fields:
  "detection_object d = JSObject
     [(''id'', Number_of_int32 (id_tag d)),
      (''hammingDistance'', Number_of_int32 (hammingDistance d)),
      (''good'', JSBoolean (good d)),
      (''center'', JSArray [JSNumber (fst (cxy d)), JSNumber (snd (cxy d))]),
      (''corners'', JSArray (corners_loop d 0 (Array_New 4))),
      (''homography'', JSArray (homography_rows d 0 (Array_New 9)))]"
  by (simp add: detection_object_def Let_def Array_New_def Array_set_def numeral_2_eq_2)

lemma detection_object_closed:
  "detection_object d = JSObject
     [(''id'', JSNumber (Finite (of_int (sint (id_tag d))))),
      (''hammingDistance'', JSNumber (Finite (of_int (sint (hammingDistance d))))),
      (''good'', JSBoolean (good d)),
      (''center'', JSArray [JSNumber (fst (cxy d)), JSNumber (snd (cxy d))]),
      (''corners'', JSArray
         [JSArray [JSNumber (fst (p d 0)), JSNumber (snd (p d 0))],
          JSArray [JSNumber (fst (p d 1)), JSNumber (snd (p d 1))],
          JSArray [JSNumber (fst (p d 2)), JSNumber (snd (p d 2))],
          JSArray [JSNumber (fst (p d 3)), JSNumber (snd (p d 3))]]),
      (''homography'', JSArray
         [JSNumber (homography d 0 0), JSNumber (homography d 0 1), JSNumber (homography d 0 2),
          JSNumber (homography d 1 0), JSNumber (homography d 1 1), JSNumber (homography d 1 2),
          JSNumber (homography d 2 0), JSNumber (homography d 2 1), JSNumber (homography d 2 2)])]"
  by (simp only: detection_object_fields corners_loop_closed homography_rows_closed
      Number_of_int32_def)

lemma Get_id_detection_object:
  "Get (detection_object d) ''id'' = JSNumber (Finite (of_int (sint (id_tag d))))"
  unfolding detection_object_closed by simp

section \<open>The image and the call\<close>

lemma pixels_allocated:
  "pixels (st @ [Some bs]) \<lparr>rows = r, cols = c, mtype = t, data = Some (length st)\<rparr> = bs"
  by (simp add: pixels_def block_def)

lemma Mat_release_allocated:
  "Mat_release \<lparr>rows = r, cols = c, mtype = t, data = Some (length st)\<rparr> (st @ [Some bs])
     = st @ [None]"
  by (simp add: Mat_release_def release_def)

lemma make_image_gray:
  "Buffer_Length st a = size_t_of_int (width * height) \<Longrightarrow>
   make_image cvt a width height st =
     Inr (\<lparr>rows = height, cols = width, mtype = CV_8UC1, data = Some (length st)\<rparr>,
          st @ [Some (block st a)])"
  by (simp add: make_image_def Mat_clone_def Mat_header_def allocate_def pixels_def)

lemma make_image_rgb:
  "Buffer_Length st a \<noteq> size_t_of_int (width * height) \<Longrightarrow>
   Buffer_Length st a = size_t_of_int (width * height * 3) \<Longrightarrow>
   make_image cvt a width height st =
     Inr (\<lparr>rows = height, cols = width, mtype = CV_8UC1, data = Some (length st)\<rparr>,
          st @ [Some (cvt COLOR_RGB2GRAY (Mat_header height width CV_8UC3 a) (block st a))])"
  by (simp add: make_image_def cvtColor_def Mat_header_def allocate_def pixels_def)

lemma make_image_rgba:
  "Buffer_Length st a \<noteq> size_t_of_int (width * height) \<Longrightarrow>
   Buffer_Length st a \<noteq> size_t_of_int (width * height * 3) \<Longrightarrow>
   Buffer_Length st a = size_t_of_int (width * height * 4) \<Longrightarrow>
   make_image cvt a width height st =
     Inr (\<lparr>rows = height, cols = width, mtype = CV_8UC1, data = Some (length st)\<rparr>,
          st @ [Some (cvt COLOR_RGBA2GRAY (Mat_header height width CV_8UC4 a) (block st a))])"
  by (simp add: make_image_def cvtColor_def Mat_header_def allocate_def pixels_def)

lemma make_image_invalid:
  "Buffer_Length st a \<noteq> size_t_of_int (width * height) \<Longrightarrow>
   Buffer_Length st a \<noteq> size_t_of_int (width * height * 3) \<Longrightarrow>
   Buffer_Length st a \<noteq> size_t_of_int (width * height * 4) \<Longrightarrow>
   make_image cvt a width height st = Inl (JSTypeError ''Invalid buffer size for given dimensions'')"
  by (simp add: make_image_def)

lemma make_image_cases:
  obtains (invalid)
    "make_image cvt a width height st = Inl (JSTypeError ''Invalid buffer size for given dimensions'')"
  | (image) bs where "make_image cvt a width height st =
       Inr (\<lparr>rows = height, cols = width, mtype = CV_8UC1, data = Some (length st)\<rparr>, st @ [Some bs])"
  using make_image_gray[of st a width height cvt] make_image_rgb[of st a width height cvt]
    make_image_rgba[of st a width height cvt] make_image_invalid[of st a width height cvt]
  by blast

lemma make_image_store:
  assumes "make_image cvt a width height st = Inr (m, st')"
  shows "\<exists>bs. st' = st @ [Some bs]
           \<and> m = \<lparr>rows = height, cols = width, mtype = CV_8UC1, data = Some (length st)\<rparr>"
  using assms by (cases rule: make_image_cases[of cvt a width height st]) auto

text \<open>With one dimension negative and the other positive, and no overflow, no realistic length matches.\<close>
lemma make_image_negative:
  fixes width height :: int32
  assumes "sint width * sint height < 0" and "- (2 ^ 31) \<le> sint width * sint height * 4"
    and "int (length (block st a)) < 2 ^ 64 - 2 ^ 31"
  shows "make_image cvt a width height st = Inl (JSTypeError ''Invalid buffer size for given dimensions'')"
proof -
  define k where "k = sint width * sint height"
  have k: "k < 0" "- (2 ^ 31) \<le> k * 4"
    using assms(1,2) by (simp_all only: k_def)
  then have hi: "k * 4 < 2 ^ 31" by linarith
  have pr: "sint (width * height) = k" "sint (width * height * 3) = k * 3"
    "sint (width * height * 4) = k * 4"
    using sint_products[of width height] k(2) hi by (simp_all only: k_def)
  have "sint (width * height) < 0" "sint (width * height * 3) < 0" "sint (width * height * 4) < 0"
    using k(1) by (simp_all only: pr)
  then show ?thesis
    by (intro make_image_invalid Buffer_Length_negative[OF assms(3)])
qed

text \<open>With both dimensions negative and no overflow the product is positive and its length is accepted.\<close>
lemma make_image_both_negative:
  fixes width height :: int32
  assumes "sint width < 0" and "sint height < 0" and "sint width * sint height * 4 < 2 ^ 31"
    and "int (length (block st a)) = sint width * sint height"
  shows "0 < sint width * sint height"
    and "make_image cvt a width height st =
     Inr (\<lparr>rows = height, cols = width, mtype = CV_8UC1, data = Some (length st)\<rparr>,
          st @ [Some (block st a)])"
proof -
  define k where "k = sint width * sint height"
  have pos: "0 < k" unfolding k_def using assms(1,2) by (rule mult_neg_neg)
  have hi: "k * 4 < 2 ^ 31" using assms(3) by (simp only: k_def)
  have lo: "- (2 ^ 31) \<le> k * 4" using pos by simp
  have pr: "sint (width * height) = k"
    using sint_products(1)[of width height] lo hi by (simp only: k_def)
  have len: "int (length (block st a)) = k" using assms(4) by (simp only: k_def)
  have "int (length (block st a)) < 2 ^ 64" using len hi pos by simp
  from Buffer_Length_nonneg[OF this, of "width * height"] pr pos len
  have "Buffer_Length st a = size_t_of_int (width * height)" by simp
  then show "make_image cvt a width height st =
     Inr (\<lparr>rows = height, cols = width, mtype = CV_8UC1, data = Some (length st)\<rparr>,
          st @ [Some (block st a)])"
    by (rule make_image_gray)
  show "0 < sint width * sint height" using pos by (simp only: k_def)
qed

text \<open>\<^verbatim>\<open>Detect\<close> once its three arguments have the right types.\<close>
lemma Detect_numbers:
  "Detect cvt ext (JSBuffer a # JSNumber x # JSNumber y # extra) w =
     (case make_image cvt a (Int32Value x) (Int32Value y) (memory w) of
        Inl e \<Rightarrow> (Inl e, w)
      | Inr (image', st) \<Rightarrow>
          (case detector (service w) of
             None \<Rightarrow> (Inl NullDereference, w\<lparr>memory := st\<rparr>)
           | Some d \<Rightarrow>
               (Inr (JSArray (map detection_object (ext d image' (pixels st image')))),
                w\<lparr>memory := Mat_release image' st\<rparr>)))"
  by (simp add: Detect_def arg_def Let_def detections_loop_map
      split: sum.split prod.split option.split)

lemma Detect_image:
  assumes "make_image cvt a (Int32Value x) (Int32Value y) (memory w) = Inr (m, st)"
    and "detector (service w) = Some d"
  shows "Detect cvt ext (JSBuffer a # JSNumber x # JSNumber y # extra) w =
           (Inr (JSArray (map detection_object (ext d m (pixels st m)))),
            w\<lparr>memory := Mat_release m st\<rparr>)"
  using assms by (simp add: Detect_numbers)

lemma Detect_invalid:
  assumes "make_image cvt a (Int32Value x) (Int32Value y) (memory w) = Inl e"
  shows "Detect cvt ext (JSBuffer a # JSNumber x # JSNumber y # extra) w = (Inl e, w)"
  using assms by (simp add: Detect_numbers)

lemma Detect_not_size_error:
  assumes "make_image cvt a (Int32Value x) (Int32Value y) (memory w) = Inr (m, st)"
  shows "fst (Detect cvt ext (JSBuffer a # JSNumber x # JSNumber y # extra) w)
           \<noteq> Inl (JSTypeError ''Invalid buffer size for given dimensions'')"
  using assms by (simp add: Detect_numbers split: option.split)

text \<open>One call: the object is as before, and so is every block that existed before.\<close>
lemma Detect_frame:
  "service (snd (Detect cvt ext info w)) = service w
   \<and> take (length (memory w)) (memory (snd (Detect cvt ext info w))) = memory w"
  by (auto simp: Detect_def Let_def Mat_release_allocated
      split: sum.splits prod.splits option.splits dest!: make_image_store)

lemma Detect_calls_frame:
  "service (snd (Detect_calls cvt ext calls w)) = service w
   \<and> take (length (memory w)) (memory (snd (Detect_calls cvt ext calls w))) = memory w"
proof (induction calls arbitrary: w)
  case Nil
  then show ?case by simp
next
  case (Cons info calls)
  obtain r w' where d: "Detect cvt ext info w = (r, w')"
    by (cases "Detect cvt ext info w")
  obtain rs w'' where c: "Detect_calls cvt ext calls w' = (rs, w'')"
    by (cases "Detect_calls cvt ext calls w'")
  from Detect_frame[of cvt ext info w] d
  have 1: "service w' = service w" "take (length (memory w)) (memory w') = memory w"
    by simp_all
  from Cons.IH[of w'] c
  have 2: "service w'' = service w'" "take (length (memory w')) (memory w'') = memory w'"
    by simp_all
  have len: "length (memory w) \<le> length (memory w')"
    using 1(2) by (metis length_take min.cobounded1 min.commute)
  have "take (length (memory w)) (memory w'')
          = take (length (memory w)) (take (length (memory w')) (memory w''))"
    using len by (simp add: min_def)
  then have "take (length (memory w)) (memory w'') = memory w"
    using 1(2) 2(2) by simp
  with 1 2 d c show ?case by simp
qed

lemma block_take:
  assumes "take (length st) st' = st" and "a < length st"
  shows "block st' a = block st a"
proof -
  have "length st \<le> length st'"
    using assms(1) by (metis length_take min.cobounded1 min.commute)
  moreover have "st' ! a = st ! a"
    using assms by (metis nth_take)
  ultimately show ?thesis using assms(2) by (simp add: block_def)
qed

section \<open>The claims\<close>

subsection \<open>C1: the buffer is interpreted by its length, in priority order\<close>




subsection \<open>C8: the border width defaults to 1 and a supplied value replaces it\<close>

text \<open>
  C8.  For a family name that is compiled in: with no second argument, or with a second
  argument that has no \<^verbatim>\<open>blackBorder\<close> property, the engine's family ends up with border
  width 1, whatever the library's own constructor had set; with a numeric
  \<^verbatim>\<open>blackBorder\<close> the engine's family ends up with that number (as \<^verbatim>\<open>Int32Value\<close> reads it,
  which for an integer in the \<^verbatim>\<open>int\<close> range is the integer itself).
\<close>
theorem blackBorder_default_and_override:
  assumes "compiled_in flags name"
  shows "installed_border (AprilTagDetector_new flags mk [JSString name]) = Some 1
       \<and> (\<not> Has opts ''blackBorder'' \<longrightarrow>
            installed_border (AprilTagDetector_new flags mk (JSString name # opts # extra)) = Some 1)
       \<and> (map_of ps ''blackBorder'' = Some (JSNumber x) \<longrightarrow>
            installed_border (AprilTagDetector_new flags mk (JSString name # JSObject ps # extra))
              = Some (Int32Value x))
       \<and> (- (2 ^ 31) \<le> n \<and> n < 2 ^ 31
            \<and> map_of ps ''blackBorder'' = Some (JSNumber (Finite (of_int n))) \<longrightarrow>
            map_option sint
              (installed_border (AprilTagDetector_new flags mk (JSString name # JSObject ps # extra)))
              = Some n)"
proof -
  from assms obtain tc where tc: "select_tagCodes flags name = Some tc"
    using select_tagCodes_Some by blast
  note b = installed_border_ok[OF tc]
  have 1: "installed_border (AprilTagDetector_new flags mk [JSString name]) = Some 1"
    by (rule b) (rule read_blackBorder_none)
  have 2: "installed_border (AprilTagDetector_new flags mk (JSString name # opts # extra)) = Some 1"
    if "\<not> Has opts ''blackBorder''"
    by (rule b) (rule read_blackBorder_absent[OF that])
  have 3: "installed_border (AprilTagDetector_new flags mk (JSString name # JSObject ps # extra))
              = Some (Int32Value z)"
    if "map_of ps ''blackBorder'' = Some (JSNumber z)" for z
    by (rule b) (rule read_blackBorder_number[OF that])
  have 4: "map_option sint
              (installed_border (AprilTagDetector_new flags mk (JSString name # JSObject ps # extra)))
              = Some n"
    if "- (2 ^ 31) \<le> n" and "n < 2 ^ 31"
      and "map_of ps ''blackBorder'' = Some (JSNumber (Finite (of_int n)))"
    using 3[OF that(3)] sint_Int32Value_of_int[OF that(1,2)] by simp
  show ?thesis using 1 2 3 4 by blast
qed

text \<open>
  The library's sample constructor starts at 2: without the option the width is 1, with
  \<^verbatim>\<open>{other: null}\<close> it is 1, and with \<^verbatim>\<open>{blackBorder: 3}\<close> it is 3.
\<close>
theorem blackBorder_default_and_override_witness:
  "installed_border (AprilTagDetector_new default_build sample_TagDetector [JSString ''36h11''])
     = Some 1
   \<and> installed_border (AprilTagDetector_new default_build sample_TagDetector
        [JSString ''36h11'', JSObject [(''other'', JSNull)]]) = Some 1
   \<and> installed_border (AprilTagDetector_new default_build sample_TagDetector
        [JSString ''36h11'', JSObject [(''blackBorder'', JSNumber (Finite 3))]]) = Some 3"
  using blackBorder_default_and_override [where flags = default_build and name = "''36h11''"
      and mk = sample_TagDetector and opts = "JSObject [(''other'', JSNull)]"
      and ps = "[(''blackBorder'', JSNumber (Finite 3))]" and x = "Finite 3" and extra = "[]" and n = 3]
  by (simp add: compiled_in_def trunc_toward_zero_def)

subsection \<open>C2: a supplied border width is not validated\<close>

text \<open>
  C2 as stated fails: \<^verbatim>\<open>new AprilTagDetector("36h11", {blackBorder: -3})\<close> succeeds, and the
  engine's family gets border width -3.
\<close>
theorem border_validation_counterexample:
  "AprilTagDetector_new default_build sample_TagDetector
       [JSString ''36h11'', JSObject [(''blackBorder'', JSNumber (Finite (- 3)))]]
     = \<lparr>object = \<lparr>detector = Some \<lparr>thisTagFamily = \<lparr>codes = tagCodes36h11, blackBorder = - 3\<rparr>\<rparr>\<rparr>,
        thrown = None\<rparr>"
  by (simp add: AprilTagDetector_new_def read_blackBorder_def select_tagCodes_def arg_def
      sample_TagDetector_def trunc_toward_zero_def Let_def)

text \<open>
  C2, amended.  When \<^verbatim>\<open>options.blackBorder\<close> is present and is a number, the constructor
  does not validate it: with a compiled-in family no error is thrown, and the value read by
  \<^verbatim>\<open>Int32Value\<close> is installed on the engine's family, so every integer of the \<^verbatim>\<open>int\<close>
  range, zero and the negative ones included, is installed as it is.
\<close>
theorem numeric_border_installed_unchecked:
  assumes "compiled_in flags name"
    and "map_of ps ''blackBorder'' = Some (JSNumber x)"
  shows "thrown (AprilTagDetector_new flags mk (JSString name # JSObject ps # extra)) = None
       \<and> installed_border (AprilTagDetector_new flags mk (JSString name # JSObject ps # extra))
            = Some (Int32Value x)
       \<and> (- (2 ^ 31) \<le> n \<and> n < 2 ^ 31 \<and> x = Finite (of_int n) \<longrightarrow>
            map_option sint
              (installed_border (AprilTagDetector_new flags mk (JSString name # JSObject ps # extra)))
              = Some n)"
proof -
  from assms(1) obtain tc where tc: "select_tagCodes flags name = Some tc"
    using select_tagCodes_Some by blast
  note r = read_blackBorder_number[OF assms(2), of "JSString name" extra]
  have 1: "thrown (AprilTagDetector_new flags mk (JSString name # JSObject ps # extra)) = None"
    by (simp add: AprilTagDetector_new_ok[OF tc r])
  have 2: "installed_border (AprilTagDetector_new flags mk (JSString name # JSObject ps # extra))
            = Some (Int32Value x)"
    by (rule installed_border_ok[OF tc r])
  have 3: "map_option sint
              (installed_border (AprilTagDetector_new flags mk (JSString name # JSObject ps # extra)))
              = Some n"
    if "- (2 ^ 31) \<le> n" and "n < 2 ^ 31" and "x = Finite (of_int n)"
    using 2 sint_Int32Value_of_int[OF that(1,2)] that(3) by simp
  show ?thesis using 1 2 3 by blast
qed

text \<open>Border widths 0 and -3 go through.\<close>
theorem numeric_border_installed_unchecked_witness:
  "thrown (AprilTagDetector_new default_build sample_TagDetector
       [JSString ''36h11'', JSObject [(''blackBorder'', JSNumber (Finite 0))]]) = None
   \<and> map_option sint (installed_border (AprilTagDetector_new default_build sample_TagDetector
       [JSString ''36h11'', JSObject [(''blackBorder'', JSNumber (Finite 0))]])) = Some 0
   \<and> map_option sint (installed_border (AprilTagDetector_new default_build sample_TagDetector
       [JSString ''36h11'', JSObject [(''blackBorder'', JSNumber (Finite (- 3)))]])) = Some (- 3)"
  using numeric_border_installed_unchecked [where flags = default_build and name = "''36h11''"
      and mk = sample_TagDetector and ps = "[(''blackBorder'', JSNumber (Finite 0))]"
      and x = "Finite 0" and extra = "[]" and n = 0]
    numeric_border_installed_unchecked [where flags = default_build and name = "''36h11''"
      and mk = sample_TagDetector and ps = "[(''blackBorder'', JSNumber (Finite (- 3)))]"
      and x = "Finite (- 3)" and extra = "[]" and n = "- 3"]
  by (simp add: compiled_in_def trunc_toward_zero_def)

subsection \<open>C3: an unknown family name is refused, with a fixed message\<close>

text \<open>
  C3 as stated fails in one part: the message does not name the rejected string.  In the
  build without optional families, \<^verbatim>\<open>"16h5"\<close> is refused with a message in which
  \<^verbatim>\<open>16h5\<close> does not occur.
\<close>
theorem unknown_family_message_counterexample:
  "thrown (AprilTagDetector_new default_build sample_TagDetector [JSString ''16h5''])
     = Some (JSTypeError ''Unknown tag family. Only 36h11 is currently enabled'')
   \<and> \<not> sublist ''16h5'' ''Unknown tag family. Only 36h11 is currently enabled''"
proof
  show "thrown (AprilTagDetector_new default_build sample_TagDetector [JSString ''16h5''])
     = Some (JSTypeError ''Unknown tag family. Only 36h11 is currently enabled'')"
    by (simp add: AprilTagDetector_new_def read_blackBorder_def select_tagCodes_def arg_def
        default_build_def Let_def)
  show "\<not> sublist ''16h5'' ''Unknown tag family. Only 36h11 is currently enabled''"
    by code_simp
qed

text \<open>
  C3, amended.  For a family name that is not compiled in, construction fails and the
  engine is never constructed (\<^verbatim>\<open>detector\<close> stays null, whatever the library's constructor
  would build); when the \<^verbatim>\<open>blackBorder\<close> option is absent or a number, the error is the
  TypeError with the fixed text "Unknown tag family. Only 36h11 is currently enabled",
  the same for every rejected name.
\<close>
theorem unknown_family_rejected:
  assumes "\<not> compiled_in flags name"
  shows "detector (object (AprilTagDetector_new flags mk (JSString name # rest))) = None
       \<and> thrown (AprilTagDetector_new flags mk (JSString name # rest)) \<noteq> None
       \<and> (rest = [] \<or> \<not> Has (hd rest) ''blackBorder'' \<or> IsNumber (Get (hd rest) ''blackBorder'') \<longrightarrow>
            AprilTagDetector_new flags mk (JSString name # rest)
              = \<lparr>object = \<lparr>detector = None\<rparr>,
                 thrown = Some (JSTypeError ''Unknown tag family. Only 36h11 is currently enabled'')\<rparr>)"
proof -
  note u = select_tagCodes_None[OF assms]
  have 1: "detector (object (AprilTagDetector_new flags mk (JSString name # rest))) = None
       \<and> thrown (AprilTagDetector_new flags mk (JSString name # rest)) \<noteq> None"
  proof (cases "read_blackBorder (JSString name # rest)")
    case (Inl e)
    then show ?thesis by (simp add: AprilTagDetector_new_failed_border)
  next
    case (Inr b)
    then show ?thesis by (simp add: AprilTagDetector_new_unknown[OF u])
  qed
  have 2: "\<exists>b. read_blackBorder (JSString name # rest) = Inr b"
    if "rest = [] \<or> \<not> Has (hd rest) ''blackBorder'' \<or> IsNumber (Get (hd rest) ''blackBorder'')"
  proof (cases rest)
    case Nil
    then show ?thesis by (simp add: read_blackBorder_none)
  next
    case (Cons opts extra)
    show ?thesis
    proof (cases "Has opts ''blackBorder''")
      case False
      then show ?thesis using Cons by (simp add: read_blackBorder_absent)
    next
      case True
      with that Cons have "IsNumber (Get opts ''blackBorder'')" by simp
      then obtain z where "Get opts ''blackBorder'' = JSNumber z"
        by (cases "Get opts ''blackBorder''") simp_all
      then show ?thesis using Cons by (simp add: read_blackBorder_def arg_def)
    qed
  qed
  have 3: "AprilTagDetector_new flags mk (JSString name # rest)
              = \<lparr>object = \<lparr>detector = None\<rparr>,
                 thrown = Some (JSTypeError ''Unknown tag family. Only 36h11 is currently enabled'')\<rparr>"
    if "rest = [] \<or> \<not> Has (hd rest) ''blackBorder'' \<or> IsNumber (Get (hd rest) ''blackBorder'')"
    using 2[OF that] AprilTagDetector_new_unknown[OF u] by blast
  show ?thesis using 1 3 by blast
qed

text \<open>\<^verbatim>\<open>"16h5"\<close> and \<^verbatim>\<open>"tag"\<close> are refused alike in the build without optional families.\<close>
theorem unknown_family_rejected_witness:
  "AprilTagDetector_new default_build sample_TagDetector [JSString ''16h5'']
     = \<lparr>object = \<lparr>detector = None\<rparr>,
        thrown = Some (JSTypeError ''Unknown tag family. Only 36h11 is currently enabled'')\<rparr>
   \<and> AprilTagDetector_new default_build sample_TagDetector
        [JSString ''tag'', JSObject [(''blackBorder'', JSNumber (Finite 2))]]
     = \<lparr>object = \<lparr>detector = None\<rparr>,
        thrown = Some (JSTypeError ''Unknown tag family. Only 36h11 is currently enabled'')\<rparr>"
  using unknown_family_rejected [where flags = default_build and name = "''16h5''"
      and mk = sample_TagDetector and rest = "[]"]
    unknown_family_rejected [where flags = default_build and name = "''tag''"
      and mk = sample_TagDetector and rest = "[JSObject [(''blackBorder'', JSNumber (Finite 2))]]"]
  by (simp add: compiled_in_def default_build_def)

subsection \<open>C4: the fields of a result record\<close>

text \<open>
  C4.  The object built for a detection has exactly the properties \<^verbatim>\<open>id\<close>,
  \<^verbatim>\<open>hammingDistance\<close>, \<^verbatim>\<open>good\<close>, \<^verbatim>\<open>center\<close>, \<^verbatim>\<open>corners\<close> and \<^verbatim>\<open>homography\<close>, in this
  order: the two integers as numbers, the engine's flag as it is, the centre as the pair
  \<open>[x, y]\<close>, the four corners \<^verbatim>\<open>p[0]\<close> to \<^verbatim>\<open>p[3]\<close> as pairs in the engine's order, and the
  nine entries of the matrix row by row, so that entry \<open>3 * row + col\<close> is the matrix
  element \<open>(row, col)\<close>.
\<close>
theorem detection_object_record:
  "detection_object d = JSObject
     [(''id'', JSNumber (Finite (of_int (sint (id_tag d))))),
      (''hammingDistance'', JSNumber (Finite (of_int (sint (hammingDistance d))))),
      (''good'', JSBoolean (good d)),
      (''center'', JSArray [JSNumber (fst (cxy d)), JSNumber (snd (cxy d))]),
      (''corners'', JSArray
         [JSArray [JSNumber (fst (p d 0)), JSNumber (snd (p d 0))],
          JSArray [JSNumber (fst (p d 1)), JSNumber (snd (p d 1))],
          JSArray [JSNumber (fst (p d 2)), JSNumber (snd (p d 2))],
          JSArray [JSNumber (fst (p d 3)), JSNumber (snd (p d 3))]]),
      (''homography'', JSArray
         [JSNumber (homography d 0 0), JSNumber (homography d 0 1), JSNumber (homography d 0 2),
          JSNumber (homography d 1 0), JSNumber (homography d 1 1), JSNumber (homography d 1 2),
          JSNumber (homography d 2 0), JSNumber (homography d 2 1), JSNumber (homography d 2 2)])]
   \<and> (\<forall>row < 3. \<forall>col < 3. \<exists>h. Get (detection_object d) ''homography'' = JSArray h
         \<and> length h = 9 \<and> h ! (3 * row + col) = JSNumber (homography d row col))
   \<and> (\<forall>j < 4. \<exists>cs. Get (detection_object d) ''corners'' = JSArray cs
         \<and> length cs = 4 \<and> cs ! j = JSArray [JSNumber (fst (p d j)), JSNumber (snd (p d j))])"
proof -
  let ?h = "[JSNumber (homography d 0 0), JSNumber (homography d 0 1), JSNumber (homography d 0 2),
          JSNumber (homography d 1 0), JSNumber (homography d 1 1), JSNumber (homography d 1 2),
          JSNumber (homography d 2 0), JSNumber (homography d 2 1), JSNumber (homography d 2 2)]"
  let ?cs = "[JSArray [JSNumber (fst (p d 0)), JSNumber (snd (p d 0))],
          JSArray [JSNumber (fst (p d 1)), JSNumber (snd (p d 1))],
          JSArray [JSNumber (fst (p d 2)), JSNumber (snd (p d 2))],
          JSArray [JSNumber (fst (p d 3)), JSNumber (snd (p d 3))]]"
  have obj: "detection_object d = JSObject
     [(''id'', JSNumber (Finite (of_int (sint (id_tag d))))),
      (''hammingDistance'', JSNumber (Finite (of_int (sint (hammingDistance d))))),
      (''good'', JSBoolean (good d)),
      (''center'', JSArray [JSNumber (fst (cxy d)), JSNumber (snd (cxy d))]),
      (''corners'', JSArray ?cs),
      (''homography'', JSArray ?h)]"
    by (simp only: detection_object_fields corners_loop_closed homography_rows_closed
        Number_of_int32_def)
  have gh: "Get (detection_object d) ''homography'' = JSArray ?h"
    unfolding obj by simp
  have gc: "Get (detection_object d) ''corners'' = JSArray ?cs"
    unfolding obj by simp
  have ih: "?h ! (3 * row + col) = JSNumber (homography d row col)"
    if "row < 3" and "col < 3" for row col
  proof -
    from that have "row = 0 \<or> row = 1 \<or> row = 2" "col = 0 \<or> col = 1 \<or> col = 2"
      by arith+
    then show ?thesis by (elim disjE) simp_all
  qed
  have ic: "?cs ! j = JSArray [JSNumber (fst (p d j)), JSNumber (snd (p d j))]" if "j < 4" for j
  proof -
    from that have "j = 0 \<or> j = 1 \<or> j = 2 \<or> j = 3" by arith
    then show ?thesis by (elim disjE) simp_all
  qed
  have 2: "\<forall>row < 3. \<forall>col < 3. \<exists>h. Get (detection_object d) ''homography'' = JSArray h
         \<and> length h = 9 \<and> h ! (3 * row + col) = JSNumber (homography d row col)"
  proof (intro allI impI)
    fix row col :: nat
    assume "row < 3" and "col < 3"
    from ih[OF this] gh
    show "\<exists>h. Get (detection_object d) ''homography'' = JSArray h
         \<and> length h = 9 \<and> h ! (3 * row + col) = JSNumber (homography d row col)"
      by (intro exI[of _ ?h]) simp
  qed
  have 3: "\<forall>j < 4. \<exists>cs. Get (detection_object d) ''corners'' = JSArray cs
         \<and> length cs = 4 \<and> cs ! j = JSArray [JSNumber (fst (p d j)), JSNumber (snd (p d j))]"
  proof (intro allI impI)
    fix j :: nat
    assume "j < 4"
    from ic[OF this] gc
    show "\<exists>cs. Get (detection_object d) ''corners'' = JSArray cs
         \<and> length cs = 4 \<and> cs ! j = JSArray [JSNumber (fst (p d j)), JSNumber (snd (p d j))]"
      by (intro exI[of _ ?cs]) simp
  qed
  from obj 2 3 show ?thesis by (intro conjI)
qed

text \<open>The sample detection: tag 7, centre (5, 6), corner \<open>j\<close> at \<open>(j, 0)\<close>, matrix element \<open>10 * row + col\<close>.\<close>
theorem detection_object_record_witness:
  "detection_object sample_detection = JSObject
     [(''id'', JSNumber (Finite 7)),
      (''hammingDistance'', JSNumber (Finite 0)),
      (''good'', JSBoolean True),
      (''center'', JSArray [JSNumber (Finite 5), JSNumber (Finite 6)]),
      (''corners'', JSArray
         [JSArray [JSNumber (Finite 0), JSNumber (Finite 0)],
          JSArray [JSNumber (Finite 1), JSNumber (Finite 0)],
          JSArray [JSNumber (Finite 2), JSNumber (Finite 0)],
          JSArray [JSNumber (Finite 3), JSNumber (Finite 0)]]),
      (''homography'', JSArray
         [JSNumber (Finite 0), JSNumber (Finite 1), JSNumber (Finite 2),
          JSNumber (Finite 10), JSNumber (Finite 11), JSNumber (Finite 12),
          JSNumber (Finite 20), JSNumber (Finite 21), JSNumber (Finite 22)])]"
  using detection_object_record [of sample_detection]
  by (simp add: sample_detection_def)

subsection \<open>C5: one record per detection, in the engine's order\<close>

text \<open>
  C5.  When the image has been built and the engine returns its detections, \<^verbatim>\<open>Detect\<close>
  returns an array of the same length whose element \<open>i\<close> is the record of detection \<open>i\<close>:
  its \<^verbatim>\<open>id\<close>, \<^verbatim>\<open>hammingDistance\<close>, \<^verbatim>\<open>good\<close>, \<^verbatim>\<open>center\<close>, \<^verbatim>\<open>corners\<close> and
  \<^verbatim>\<open>homography\<close> are those of detection \<open>i\<close>, so the sequence of ids returned is the
  engine's sequence of ids: nothing is sorted, dropped or merged.  When the engine returns no
  detection the result is the empty array, not an error.
\<close>
theorem Detect_keeps_engine_order:
  assumes "make_image cvt a (Int32Value x) (Int32Value y) (memory w) = Inr (m, st)"
    and "detector (service w) = Some d"
    and "detections = ext d m (pixels st m)"
    and "info = JSBuffer a # JSNumber x # JSNumber y # extra"
  shows "\<exists>result. fst (Detect cvt ext info w) = Inr (JSArray result)
           \<and> length result = length detections
           \<and> (\<forall>i < length detections. \<forall>t. t = detections ! i \<longrightarrow>
                 result ! i = JSObject
                   [(''id'', JSNumber (Finite (of_int (sint (id_tag t))))),
                    (''hammingDistance'', JSNumber (Finite (of_int (sint (hammingDistance t))))),
                    (''good'', JSBoolean (good t)),
                    (''center'', JSArray [JSNumber (fst (cxy t)), JSNumber (snd (cxy t))]),
                    (''corners'', JSArray
                       [JSArray [JSNumber (fst (p t 0)), JSNumber (snd (p t 0))],
                        JSArray [JSNumber (fst (p t 1)), JSNumber (snd (p t 1))],
                        JSArray [JSNumber (fst (p t 2)), JSNumber (snd (p t 2))],
                        JSArray [JSNumber (fst (p t 3)), JSNumber (snd (p t 3))]]),
                    (''homography'', JSArray
                       [JSNumber (homography t 0 0), JSNumber (homography t 0 1),
                        JSNumber (homography t 0 2), JSNumber (homography t 1 0),
                        JSNumber (homography t 1 1), JSNumber (homography t 1 2),
                        JSNumber (homography t 2 0), JSNumber (homography t 2 1),
                        JSNumber (homography t 2 2)])])
           \<and> map (\<lambda>r. Get r ''id'') result
                = map (\<lambda>t. JSNumber (Finite (of_int (sint (id_tag t))))) detections
           \<and> (detections = [] \<longrightarrow> result = [])"
proof -
  let ?r = "map detection_object detections"
  have r: "fst (Detect cvt ext info w) = Inr (JSArray ?r)"
    using Detect_image[OF assms(1,2), where ext = ext and extra = extra] assms(3,4) by simp
  have n: "?r ! i = detection_object t" if "i < length detections" and "t = detections ! i" for i t
    using that by simp
  have ids: "map (\<lambda>r. Get r ''id'') ?r
                = map (\<lambda>t. JSNumber (Finite (of_int (sint (id_tag t))))) detections"
    by (simp only: map_map o_def Get_id_detection_object)
  show ?thesis
  proof (intro exI[of _ ?r] conjI allI impI)
    show "fst (Detect cvt ext info w) = Inr (JSArray ?r)" by (rule r)
    show "length ?r = length detections" by simp
    show "map (\<lambda>r. Get r ''id'') ?r
                = map (\<lambda>t. JSNumber (Finite (of_int (sint (id_tag t))))) detections"
      by (rule ids)
    show "?r = []" if "detections = []" using that by simp
  next
    fix i t
    assume "i < length detections" and "t = detections ! i"
    from n[OF this] show "?r ! i = JSObject
                   [(''id'', JSNumber (Finite (of_int (sint (id_tag t))))),
                    (''hammingDistance'', JSNumber (Finite (of_int (sint (hammingDistance t))))),
                    (''good'', JSBoolean (good t)),
                    (''center'', JSArray [JSNumber (fst (cxy t)), JSNumber (snd (cxy t))]),
                    (''corners'', JSArray
                       [JSArray [JSNumber (fst (p t 0)), JSNumber (snd (p t 0))],
                        JSArray [JSNumber (fst (p t 1)), JSNumber (snd (p t 1))],
                        JSArray [JSNumber (fst (p t 2)), JSNumber (snd (p t 2))],
                        JSArray [JSNumber (fst (p t 3)), JSNumber (snd (p t 3))]]),
                    (''homography'', JSArray
                       [JSNumber (homography t 0 0), JSNumber (homography t 0 1),
                        JSNumber (homography t 0 2), JSNumber (homography t 1 0),
                        JSNumber (homography t 1 1), JSNumber (homography t 1 2),
                        JSNumber (homography t 2 0), JSNumber (homography t 2 1),
                        JSNumber (homography t 2 2)])]"
      by (simp only: detection_object_closed)
  qed
qed

text \<open>
  The engine reports tags 3, 1, 3: three records come back with ids 3, 1, 3, unsorted and
  with the repeated tag kept; an engine that finds nothing gives the empty array.
\<close>
theorem Detect_keeps_engine_order_witness:
  "(\<exists>result. fst (Detect sample_cvtColor_pixels three_tags
        [JSBuffer 0, JSNumber (Finite 2), JSNumber (Finite 2)] (world_with [1, 2, 3, 4]))
        = Inr (JSArray result)
      \<and> length result = 3
      \<and> map (\<lambda>r. Get r ''id'') result
           = [JSNumber (Finite 3), JSNumber (Finite 1), JSNumber (Finite 3)])
   \<and> fst (Detect sample_cvtColor_pixels no_tags
        [JSBuffer 0, JSNumber (Finite 2), JSNumber (Finite 2)] (world_with [1, 2, 3, 4]))
        = Inr (JSArray [])"
proof -
  let ?m = "\<lparr>rows = 2, cols = 2, mtype = CV_8UC1, data = Some 1\<rparr>"
  let ?st = "[Some [1, 2, 3, 4], Some [1, 2, 3, 4]] :: store"
  let ?ds = "three_tags (sample_TagDetector tagCodes36h11) ?m (pixels ?st ?m)"
  have mk: "make_image sample_cvtColor_pixels 0 (Int32Value (Finite 2)) (Int32Value (Finite 2))
              (memory (world_with [1, 2, 3, 4])) = Inr (?m, ?st)"
    by (simp add: make_image_def Mat_clone_def Mat_header_def allocate_def pixels_def
        trunc_toward_zero_def Buffer_Length_def block_def size_t_of_int_def world_with_def)
  have s: "detector (service (world_with [1, 2, 3, 4])) = Some (sample_TagDetector tagCodes36h11)"
    by (simp add: world_with_def)
  have "\<exists>result. fst (Detect sample_cvtColor_pixels three_tags
        [JSBuffer 0, JSNumber (Finite 2), JSNumber (Finite 2)] (world_with [1, 2, 3, 4]))
        = Inr (JSArray result)
      \<and> length result = length ?ds
      \<and> map (\<lambda>r. Get r ''id'') result
           = map (\<lambda>t. JSNumber (Finite (of_int (sint (id_tag t))))) ?ds"
    using Detect_keeps_engine_order[OF mk s refl refl, where ext = three_tags and extra = "[]"]
    by (elim exE conjE) (intro exI conjI, assumption+)
  then have 1: "\<exists>result. fst (Detect sample_cvtColor_pixels three_tags
        [JSBuffer 0, JSNumber (Finite 2), JSNumber (Finite 2)] (world_with [1, 2, 3, 4]))
        = Inr (JSArray result)
      \<and> length result = 3
      \<and> map (\<lambda>r. Get r ''id'') result
           = [JSNumber (Finite 3), JSNumber (Finite 1), JSNumber (Finite 3)]"
    by (simp add: three_tags_def tag_with_id_def numeral_3_eq_3)
  have "\<exists>result. fst (Detect sample_cvtColor_pixels no_tags
        [JSBuffer 0, JSNumber (Finite 2), JSNumber (Finite 2)] (world_with [1, 2, 3, 4]))
        = Inr (JSArray result)
      \<and> length result = length (no_tags (sample_TagDetector tagCodes36h11) ?m (pixels ?st ?m))"
    using Detect_keeps_engine_order[OF mk s refl refl, where ext = no_tags and extra = "[]"]
    by (elim exE conjE) (intro exI conjI, assumption+)
  then have 2: "fst (Detect sample_cvtColor_pixels no_tags
        [JSBuffer 0, JSNumber (Finite 2), JSNumber (Finite 2)] (world_with [1, 2, 3, 4]))
        = Inr (JSArray [])"
    by (simp add: no_tags_def)
  from 1 2 show ?thesis by (rule conjI)
qed

subsection \<open>C6: arguments are checked before any image work\<close>

text \<open>
  C6.  When the first argument is missing or is not a Buffer, \<^verbatim>\<open>Detect\<close> throws a TypeError
  about the image buffer ("Expected image buffer" when there is no argument at all,
  "Image must be a Buffer" otherwise); when the buffer is fine and the width or the
  height is missing or is not a number, it throws the TypeError "Expected width and height
  as numbers".  In both cases the world is left as it was: no matrix has been built, and
  neither the colour conversion nor the engine has any part in the outcome.
\<close>
theorem Detect_checks_arguments:
  "(\<not> IsBuffer (arg info 0) \<longrightarrow>
      Detect cvt ext info w =
        (Inl (JSTypeError (if info = [] then ''Expected image buffer'' else ''Image must be a Buffer'')),
         w))
   \<and> (IsBuffer (arg info 0) \<and> (\<not> IsNumber (arg info 1) \<or> \<not> IsNumber (arg info 2)) \<longrightarrow>
      Detect cvt ext info w = (Inl (JSTypeError ''Expected width and height as numbers''), w))"
  by (auto simp: Detect_def arg_def Let_def)

text \<open>No argument; a string for the buffer; a buffer alone; a string for the height.\<close>
theorem Detect_checks_arguments_witness:
  "Detect sample_cvtColor_pixels one_tag [] (world_with [1, 2, 3, 4])
     = (Inl (JSTypeError ''Expected image buffer''), world_with [1, 2, 3, 4])
   \<and> Detect sample_cvtColor_pixels one_tag [JSString ''pixels'', JSNumber (Finite 2), JSNumber (Finite 2)]
        (world_with [1, 2, 3, 4])
     = (Inl (JSTypeError ''Image must be a Buffer''), world_with [1, 2, 3, 4])
   \<and> Detect sample_cvtColor_pixels one_tag [JSBuffer 0] (world_with [1, 2, 3, 4])
     = (Inl (JSTypeError ''Expected width and height as numbers''), world_with [1, 2, 3, 4])
   \<and> Detect sample_cvtColor_pixels one_tag [JSBuffer 0, JSNumber (Finite 2), JSString ''2'']
        (world_with [1, 2, 3, 4])
     = (Inl (JSTypeError ''Expected width and height as numbers''), world_with [1, 2, 3, 4])"
  using Detect_checks_arguments [of "[]" sample_cvtColor_pixels one_tag "world_with [1, 2, 3, 4]"]
    Detect_checks_arguments [of "[JSString ''pixels'', JSNumber (Finite 2), JSNumber (Finite 2)]"
      sample_cvtColor_pixels one_tag "world_with [1, 2, 3, 4]"]
    Detect_checks_arguments [of "[JSBuffer 0]" sample_cvtColor_pixels one_tag "world_with [1, 2, 3, 4]"]
    Detect_checks_arguments [of "[JSBuffer 0, JSNumber (Finite 2), JSString ''2'']"
      sample_cvtColor_pixels one_tag "world_with [1, 2, 3, 4]"]
  by (simp add: arg_def)

subsection \<open>C7: a call changes neither the buffer nor the configuration\<close>

text \<open>
  C7.  After any sequence of \<^verbatim>\<open>detect\<close> calls on one object, with whatever arguments, the
  object (its engine, with the tag family and the border width) is what it was before the
  first call, and every block of memory that existed before the first call, the callers'
  buffers among them, holds the bytes it held: the calls only add blocks of their own
  (the image, released again when the call returns).
\<close>
theorem Detect_calls_preserve:
  "service (snd (Detect_calls cvt ext calls w)) = service w
   \<and> take (length (memory w)) (memory (snd (Detect_calls cvt ext calls w))) = memory w
   \<and> (\<forall>a < length (memory w). block (memory (snd (Detect_calls cvt ext calls w))) a = block (memory w) a)
   \<and> map_option thisTagFamily (detector (service (snd (Detect_calls cvt ext calls w))))
        = map_option thisTagFamily (detector (service w))"
proof -
  note f = Detect_calls_frame[of cvt ext calls w]
  have "block (memory (snd (Detect_calls cvt ext calls w))) a = block (memory w) a"
    if "a < length (memory w)" for a
    using block_take[OF _ that] f by blast
  with f show ?thesis by simp
qed

text \<open>
  A grey call, a refused call and a colour call on the same four bytes: the service and the
  buffer are as before, and the two images are released.
\<close>
theorem Detect_calls_preserve_witness:
  "snd (Detect_calls sample_cvtColor_pixels one_tag
      [[JSBuffer 0, JSNumber (Finite 2), JSNumber (Finite 2)],
       [JSBuffer 0, JSNumber (Finite 3), JSNumber (Finite 3)],
       [JSBuffer 0, JSNumber (Finite 1), JSNumber (Finite 1)]] (world_with [1, 2, 3, 4]))
    = \<lparr>service = \<lparr>detector = Some (sample_TagDetector tagCodes36h11)\<rparr>,
       memory = [Some [1, 2, 3, 4], None, None]\<rparr>"
proof -
  let ?w = "snd (Detect_calls sample_cvtColor_pixels one_tag
      [[JSBuffer 0, JSNumber (Finite 2), JSNumber (Finite 2)],
       [JSBuffer 0, JSNumber (Finite 3), JSNumber (Finite 3)],
       [JSBuffer 0, JSNumber (Finite 1), JSNumber (Finite 1)]] (world_with [1, 2, 3, 4]))"
  have m: "memory ?w = [Some [1, 2, 3, 4], None, None]"
    by (simp add: Detect_numbers make_image_def Mat_clone_def cvtColor_def Mat_header_def
        allocate_def pixels_def Mat_release_def release_def trunc_toward_zero_def
        Buffer_Length_def block_def size_t_of_int_def world_with_def)
  from Detect_calls_preserve[of sample_cvtColor_pixels one_tag
      "[[JSBuffer 0, JSNumber (Finite 2), JSNumber (Finite 2)],
       [JSBuffer 0, JSNumber (Finite 3), JSNumber (Finite 3)],
       [JSBuffer 0, JSNumber (Finite 1), JSNumber (Finite 1)]]" "world_with [1, 2, 3, 4]"]
  have "service ?w = \<lparr>detector = Some (sample_TagDetector tagCodes36h11)\<rparr>"
    by (simp add: world_with_def)
  with m show ?thesis by (cases ?w) simp
qed

subsection \<open>C9: an empty buffer with a zero product is accepted\<close>

text \<open>
  C9.  When the product \<^verbatim>\<open>width * height\<close> is 0 (one of them is 0, say) and the buffer is
  empty, the first comparison succeeds: \<^verbatim>\<open>Detect\<close> does not throw the buffer-size error, the
  engine is run on a single-channel matrix with those dimensions and no pixel, and the result
  is the array of its detections.  Nothing requires \<^verbatim>\<open>width\<close> or \<^verbatim>\<open>height\<close> to be positive.
\<close>
theorem Detect_zero_product:
  assumes "detector (service w) = Some d"
    and "block (memory w) a = []"
    and "Int32Value x * Int32Value y = 0"
  shows "Detect cvt ext (JSBuffer a # JSNumber x # JSNumber y # extra) w =
           (Inr (JSArray (map detection_object
              (ext d \<lparr>rows = Int32Value y, cols = Int32Value x, mtype = CV_8UC1,
                      data = Some (length (memory w))\<rparr> []))),
            w\<lparr>memory := memory w @ [None]\<rparr>)"
proof -
  have "Buffer_Length (memory w) a = size_t_of_int (Int32Value x * Int32Value y)"
    by (simp add: Buffer_Length_def size_t_of_int_def assms(2,3))
  from Detect_image[OF make_image_gray[OF this] assms(1), where ext = ext and extra = extra and cvt = cvt]
  show ?thesis
    by (simp only: pixels_allocated Mat_release_allocated assms(2))
qed

text \<open>Width 0 and height 5 with an empty buffer: the engine runs and finds nothing.\<close>
theorem Detect_zero_product_witness:
  "Detect sample_cvtColor_pixels no_tags [JSBuffer 0, JSNumber (Finite 0), JSNumber (Finite 5)]
     (world_with [])
   = (Inr (JSArray []),
      \<lparr>service = \<lparr>detector = Some (sample_TagDetector tagCodes36h11)\<rparr>, memory = [Some [], None]\<rparr>)"
proof -
  have s: "detector (service (world_with [])) = Some (sample_TagDetector tagCodes36h11)"
    by (simp add: world_with_def)
  have b: "block (memory (world_with [])) 0 = []"
    by (simp add: world_with_def block_def)
  have z: "Int32Value (Finite 0) * Int32Value (Finite 5) = 0"
    by (simp add: trunc_toward_zero_def)
  from Detect_zero_product[OF s b z, where cvt = sample_cvtColor_pixels and ext = no_tags
      and extra = "[]"]
  show ?thesis by (simp add: no_tags_def world_with_def)
qed

subsection \<open>C10: the dimensions are truncated; negative ones are not always refused\<close>

text \<open>
  C10 as stated fails in its second half: with \<^verbatim>\<open>width = -1\<close> and \<^verbatim>\<open>height = -1\<close> the
  product is 1, not negative, and a one-byte buffer passes the first comparison; there is no
  buffer-size error.
\<close>
theorem negative_dimensions_counterexample:
  "sint (Int32Value (Finite (- 1)) * Int32Value (Finite (- 1))) = 1
   \<and> fst (Detect sample_cvtColor_pixels no_tags
          [JSBuffer 0, JSNumber (Finite (- 1)), JSNumber (Finite (- 1))] (world_with [0]))
       \<noteq> Inl (JSTypeError ''Invalid buffer size for given dimensions'')"
  by (simp add: Detect_numbers make_image_def Mat_clone_def Mat_header_def allocate_def
      pixels_def trunc_toward_zero_def Buffer_Length_def block_def size_t_of_int_def
      world_with_def no_tags_def)

text \<open>
  C10, amended.  Any two numbers are accepted as width and height, and \<^verbatim>\<open>Detect\<close> uses
  them only through \<^verbatim>\<open>Int32Value\<close>: the call behaves as the call with the truncated
  integers, and a finite number \<open>q\<close> strictly between \<open>-2^31\<close> and \<open>2^31\<close> is read as the
  integer \<open>n\<close> next to it towards zero (\<open>n \<le> q < n + 1\<close> for \<open>q \<ge> 0\<close>,
  \<open>n - 1 < q \<le> n\<close> for \<open>q < 0\<close>; 10.9 as 10).  When exactly one of the truncated
  dimensions is negative and the other is positive, and four times their product does not
  overflow, the three products are negative, their conversions to \<^verbatim>\<open>size_t\<close> are at least
  \<open>2^64 - 2^31\<close>, no buffer shorter than that matches, and the call fails with the
  buffer-size TypeError.  When both truncated dimensions are negative and four times their
  product does not overflow, the product is positive and a buffer of exactly that many bytes
  is not refused with the buffer-size TypeError.
\<close>
theorem dimensions_truncated:
  "Detect cvt ext (JSBuffer a # JSNumber x # JSNumber y # extra) w
     = Detect cvt ext
         (JSBuffer a # Number_of_int32 (Int32Value x) # Number_of_int32 (Int32Value y) # extra) w
   \<and> (- (2 ^ 31) < q \<and> q < 2 ^ 31 \<longrightarrow>
        (0 \<le> q \<longrightarrow> of_int (sint (Int32Value (Finite q))) \<le> q
                    \<and> q < of_int (sint (Int32Value (Finite q))) + 1)
        \<and> (q < 0 \<longrightarrow> of_int (sint (Int32Value (Finite q))) - 1 < q
                    \<and> q \<le> of_int (sint (Int32Value (Finite q)))))
   \<and> (((sint (Int32Value x) < 0 \<and> 0 < sint (Int32Value y))
         \<or> (0 < sint (Int32Value x) \<and> sint (Int32Value y) < 0))
        \<and> - (2 ^ 31) \<le> sint (Int32Value x) * sint (Int32Value y) * 4
        \<and> int (length (block (memory w) a)) < 2 ^ 64 - 2 ^ 31 \<longrightarrow>
        Detect cvt ext (JSBuffer a # JSNumber x # JSNumber y # extra) w
          = (Inl (JSTypeError ''Invalid buffer size for given dimensions''), w))
   \<and> (sint (Int32Value x) < 0 \<and> sint (Int32Value y) < 0
        \<and> sint (Int32Value x) * sint (Int32Value y) * 4 < 2 ^ 31
        \<and> int (length (block (memory w) a)) = sint (Int32Value x) * sint (Int32Value y) \<longrightarrow>
        0 < sint (Int32Value x) * sint (Int32Value y)
        \<and> fst (Detect cvt ext (JSBuffer a # JSNumber x # JSNumber y # extra) w)
             \<noteq> Inl (JSTypeError ''Invalid buffer size for given dimensions''))"
proof -
  have 1: "Detect cvt ext (JSBuffer a # JSNumber x # JSNumber y # extra) w
     = Detect cvt ext
         (JSBuffer a # Number_of_int32 (Int32Value x) # Number_of_int32 (Int32Value y) # extra) w"
    by (simp only: Detect_numbers Number_of_int32_def Int32Value_of_sint)
  have 2: "(0 \<le> q \<longrightarrow> of_int (sint (Int32Value (Finite q))) \<le> q
                    \<and> q < of_int (sint (Int32Value (Finite q))) + 1)
        \<and> (q < 0 \<longrightarrow> of_int (sint (Int32Value (Finite q))) - 1 < q
                    \<and> q \<le> of_int (sint (Int32Value (Finite q))))"
    if "- (2 ^ 31) < q" and "q < 2 ^ 31"
  proof -
    have "sint (Int32Value (Finite q)) = trunc_toward_zero q"
      using sint_word_of_int_32[OF trunc_toward_zero_range[OF that]] by simp
    then show ?thesis using trunc_toward_zero_bounds[of q] by (simp only:)
  qed
  have 3: "Detect cvt ext (JSBuffer a # JSNumber x # JSNumber y # extra) w
          = (Inl (JSTypeError ''Invalid buffer size for given dimensions''), w)"
    if s: "(sint (Int32Value x) < 0 \<and> 0 < sint (Int32Value y))
         \<or> (0 < sint (Int32Value x) \<and> sint (Int32Value y) < 0)"
      and lo: "- (2 ^ 31) \<le> sint (Int32Value x) * sint (Int32Value y) * 4"
      and len: "int (length (block (memory w) a)) < 2 ^ 64 - 2 ^ 31"
  proof -
    have "sint (Int32Value x) * sint (Int32Value y) < 0"
      using s by (auto simp: mult_less_0_iff)
    from Detect_invalid[OF make_image_negative[OF this lo len]]
    show ?thesis .
  qed
  have 4: "0 < sint (Int32Value x) * sint (Int32Value y)
        \<and> fst (Detect cvt ext (JSBuffer a # JSNumber x # JSNumber y # extra) w)
             \<noteq> Inl (JSTypeError ''Invalid buffer size for given dimensions'')"
    if "sint (Int32Value x) < 0" and "sint (Int32Value y) < 0"
      and "sint (Int32Value x) * sint (Int32Value y) * 4 < 2 ^ 31"
      and "int (length (block (memory w) a)) = sint (Int32Value x) * sint (Int32Value y)"
    using make_image_both_negative(1)[OF that]
      Detect_not_size_error[OF make_image_both_negative(2)[OF that]]
    by (intro conjI)
  show ?thesis using 1 2 3 4 by blast
qed

text \<open>
  10.9 by 1 with ten bytes is the call 10 by 1; \<^verbatim>\<open>Int32Value\<close> reads 10.9 as 10; -2 by 3
  with six bytes is refused; -2 by -3 with six bytes is not.
\<close>
theorem dimensions_truncated_witness:
  "Detect sample_cvtColor_pixels no_tags
       [JSBuffer 0, JSNumber (Finite (109 / 10)), JSNumber (Finite 1)]
       (world_with [0, 1, 2, 3, 4, 5, 6, 7, 8, 9])
     = Detect sample_cvtColor_pixels no_tags
       [JSBuffer 0, JSNumber (Finite 10), JSNumber (Finite 1)]
       (world_with [0, 1, 2, 3, 4, 5, 6, 7, 8, 9])
   \<and> sint (Int32Value (Finite (109 / 10))) = 10
   \<and> Detect sample_cvtColor_pixels no_tags
       [JSBuffer 0, JSNumber (Finite (- 2)), JSNumber (Finite 3)] (world_with [1, 2, 3, 4, 5, 6])
     = (Inl (JSTypeError ''Invalid buffer size for given dimensions''), world_with [1, 2, 3, 4, 5, 6])
   \<and> fst (Detect sample_cvtColor_pixels no_tags
       [JSBuffer 0, JSNumber (Finite (- 2)), JSNumber (Finite (- 3))] (world_with [1, 2, 3, 4, 5, 6]))
     \<noteq> Inl (JSTypeError ''Invalid buffer size for given dimensions'')"
proof -
  have v: "Int32Value (Finite (109 / 10)) = 10" "Int32Value (Finite 1) = 1"
    by (simp_all add: trunc_toward_zero_10_9) (simp_all add: trunc_toward_zero_def)
  have n: "Number_of_int32 10 = JSNumber (Finite 10)" "Number_of_int32 1 = JSNumber (Finite 1)"
    by (simp_all add: Number_of_int32_def)
  note t = dimensions_truncated[of sample_cvtColor_pixels no_tags 0 "Finite (109 / 10)" "Finite 1"
      "[]" "world_with [0, 1, 2, 3, 4, 5, 6, 7, 8, 9]" "109 / 10"]
  have 1: "Detect sample_cvtColor_pixels no_tags
       [JSBuffer 0, JSNumber (Finite (109 / 10)), JSNumber (Finite 1)]
       (world_with [0, 1, 2, 3, 4, 5, 6, 7, 8, 9])
     = Detect sample_cvtColor_pixels no_tags
       [JSBuffer 0, JSNumber (Finite 10), JSNumber (Finite 1)]
       (world_with [0, 1, 2, 3, 4, 5, 6, 7, 8, 9])"
    using t[THEN conjunct1] by (simp only: v n)
  have 2: "sint (Int32Value (Finite (109 / 10))) = 10"
    using t[THEN conjunct2, THEN conjunct1] by (simp only: v) simp
  from dimensions_truncated[of sample_cvtColor_pixels no_tags 0 "Finite (- 2)" "Finite 3"
      "[]" "world_with [1, 2, 3, 4, 5, 6]" 0, THEN conjunct2, THEN conjunct2, THEN conjunct1]
  have 3: "Detect sample_cvtColor_pixels no_tags
       [JSBuffer 0, JSNumber (Finite (- 2)), JSNumber (Finite 3)] (world_with [1, 2, 3, 4, 5, 6])
     = (Inl (JSTypeError ''Invalid buffer size for given dimensions''), world_with [1, 2, 3, 4, 5, 6])"
    by (simp add: trunc_toward_zero_def world_with_def block_def)
  from dimensions_truncated[of sample_cvtColor_pixels no_tags 0 "Finite (- 2)" "Finite (- 3)"
      "[]" "world_with [1, 2, 3, 4, 5, 6]" 0, THEN conjunct2, THEN conjunct2, THEN conjunct2]
  have 4: "fst (Detect sample_cvtColor_pixels no_tags
       [JSBuffer 0, JSNumber (Finite (- 2)), JSNumber (Finite (- 3))] (world_with [1, 2, 3, 4, 5, 6]))
     \<noteq> Inl (JSTypeError ''Invalid buffer size for given dimensions'')"
    by (simp add: trunc_toward_zero_def world_with_def block_def)
  show ?thesis using 1 2 3 4 by blast
qed

end
